theory Spec2Isabelle
  imports Complex_Main "HOL-Library.Sublist"
begin

section \<open>ParticleListActionService: particle provenance and trajectory retention\<close>

text \<open>
  A shallow embedding of \<^verbatim>\<open>larg4/pluginActions/ParticleListAction.cc\<close>.
  Every callback of the service is a function from the members of the service (and the
  Geant4 object it is handed) to the members after the call. An exception is a value
  \<open>Inl\<close>, with the members as they are when it is thrown; a callback whose ancestor
  walk never ends has the value \<open>None\<close>.
  Diagnostics (\<^verbatim>\<open>mf::Log...\<close>) change no member and are left out.
  C++ \<^verbatim>\<open>int\<close> and \<^verbatim>\<open>size_t\<close> are \<open>int\<close> and \<open>nat\<close>. The sum \<^verbatim>\<open>highestID + 1\<close> of
  \<^verbatim>\<open>YieldList\<close> and \<^verbatim>\<open>YieldDroppedList\<close>, whose operand can be any key of a list, is
  taken in 32-bit two's complement (\<open>int_wrap\<close>). C++ \<^verbatim>\<open>double\<close> is \<open>real\<close> where its
  values are only read, stored, compared and divided by a unit; the time of a step
  point, which the stepping callback computes with two quotients whose divisors may be
  zero, is a \<open>G4double\<close>: a real, an infinity or not-a-number.
\<close>

subsection \<open>Machine arithmetic\<close>

text \<open>The value of a 32-bit two's complement \<^verbatim>\<open>int\<close> after a sum has left the range.\<close>

definition int_wrap :: "int \<Rightarrow> int" where
  "int_wrap x = (x + 2 ^ 31) mod 2 ^ 32 - 2 ^ 31"

text \<open>
  IEEE 754 doubles as far as the service computes with them: the quotient of two finite
  values (a zero divisor is taken as positive zero), sum, negation, difference,
  \<^verbatim>\<open>fabs\<close>, the comparison \<^verbatim>\<open>>\<close> with a finite value (false for not-a-number), and the
  quotient by a finite value.
\<close>

datatype G4double = Finite real | PlusInfinity | MinusInfinity | NaN

definition G4double_divide :: "real \<Rightarrow> real \<Rightarrow> G4double" where
  "G4double_divide x y =
     (if y \<noteq> 0 then Finite (x / y)
      else if 0 < x then PlusInfinity
      else if x < 0 then MinusInfinity
      else NaN)"

fun G4double_plus :: "G4double \<Rightarrow> G4double \<Rightarrow> G4double" where
  "G4double_plus (Finite x) (Finite y) = Finite (x + y)"
| "G4double_plus NaN y = NaN"
| "G4double_plus x NaN = NaN"
| "G4double_plus PlusInfinity MinusInfinity = NaN"
| "G4double_plus MinusInfinity PlusInfinity = NaN"
| "G4double_plus PlusInfinity y = PlusInfinity"
| "G4double_plus MinusInfinity y = MinusInfinity"
| "G4double_plus x PlusInfinity = PlusInfinity"
| "G4double_plus x MinusInfinity = MinusInfinity"

fun G4double_uminus :: "G4double \<Rightarrow> G4double" where
  "G4double_uminus (Finite x) = Finite (- x)"
| "G4double_uminus PlusInfinity = MinusInfinity"
| "G4double_uminus MinusInfinity = PlusInfinity"
| "G4double_uminus NaN = NaN"

definition G4double_minus :: "G4double \<Rightarrow> G4double \<Rightarrow> G4double" where
  "G4double_minus x y = G4double_plus x (G4double_uminus y)"

fun fabs :: "G4double \<Rightarrow> G4double" where
  "fabs (Finite x) = Finite \<bar>x\<bar>"
| "fabs PlusInfinity = PlusInfinity"
| "fabs MinusInfinity = PlusInfinity"
| "fabs NaN = NaN"

fun G4double_greater :: "G4double \<Rightarrow> real \<Rightarrow> bool" where
  "G4double_greater (Finite x) y = (x > y)"
| "G4double_greater PlusInfinity y = True"
| "G4double_greater MinusInfinity y = False"
| "G4double_greater NaN y = False"

fun G4double_over :: "G4double \<Rightarrow> real \<Rightarrow> G4double" where
  "G4double_over (Finite x) y = G4double_divide x y"
| "G4double_over PlusInfinity y = (if 0 \<le> y then PlusInfinity else MinusInfinity)"
| "G4double_over MinusInfinity y = (if 0 \<le> y then MinusInfinity else PlusInfinity)"
| "G4double_over NaN y = NaN"

subsection \<open>Data handed over by Geant4 and by the generator stage\<close>

type_synonym G4ThreeVector = "real \<times> real \<times> real"
type_synonym TLorentzVector = "real \<times> real \<times> real \<times> G4double"

text \<open>
  \<^verbatim>\<open>g4b::PrimaryParticleInformation\<close>: the fields the service reads. An index of a
  generated particle (\<^verbatim>\<open>simb::GeneratedParticleIndex_t\<close>) is \<open>None\<close> when it is
  \<^verbatim>\<open>simb::NoGeneratedParticleIndex\<close>.
\<close>

record PrimaryParticleInformation =
  MCParticleIndex :: "nat option"
  MCTruthIndex :: nat
  MCParticleProcess :: string

text \<open>
  A \<^verbatim>\<open>G4PrimaryParticle\<close> is represented by the result of the \<^verbatim>\<open>dynamic_cast\<close> of its
  user information: \<open>None\<close> when the cast gives \<^verbatim>\<open>nullptr\<close>.
\<close>

type_synonym G4PrimaryParticle = "PrimaryParticleInformation option"

record G4StepPoint =
  GetPosition :: G4ThreeVector
  GetPointGlobalTime :: G4double
  GetMomentum :: G4ThreeVector
  GetTotalEnergy :: real
  GetProcessDefinedStep :: "string option"

record G4Step =
  GetPreStepPoint :: G4StepPoint
  GetPostStepPoint :: G4StepPoint
  GetStepLength :: real
  GetDeltaTime :: real

text \<open>
  A \<^verbatim>\<open>G4Track\<close> with its current step (\<^verbatim>\<open>G4Track::GetStep\<close>). The stepping callback
  receives a \<^verbatim>\<open>G4Step\<close> and reads its track through \<^verbatim>\<open>G4Step::GetTrack\<close>; both
  directions are the same pair of objects, so the callback's argument is the track here.
\<close>

record G4Track =
  GetTrackID :: int
  GetParentID :: int
  GetPDGEncoding :: int
  GetCreatorProcessName :: string
  GetKineticEnergy :: real
  GetMass :: real
  GetPolarization :: G4ThreeVector
  GetProperTime :: real
  GetPrimaryParticle :: "G4PrimaryParticle option"
  GetWeight :: real
  GetGlobalTime :: real
  GetVelocity :: real
  GetStep :: G4Step

text \<open>\<^verbatim>\<open>simb::MCTruth\<close> and a handle to a vector of them with its provenance label.\<close>

record MCTruth =
  Origin :: nat
  NParticles :: nat

record MCTruthHandle =
  label :: string
  truths :: "MCTruth list"

subsection \<open>Particles and the particle list\<close>

text \<open>
  \<^verbatim>\<open>simb::MCParticle\<close>. A trajectory sample is the argument list of one
  \<^verbatim>\<open>AddTrajectoryPoint\<close> call: position, momentum, process name and the
  keep-transportation flag.
\<close>

type_synonym sample = "TLorentzVector \<times> TLorentzVector \<times> string \<times> bool"

record MCParticle =
  TrackId :: int
  PdgCode :: int
  Process :: string
  Mother :: int
  Mass :: real
  StatusCode :: int
  Polarization :: G4ThreeVector
  Weight :: real
  EndProcess :: string
  Trajectory :: "sample list"
  Daughters :: "int list"

text \<open>
  The constructor call \<^verbatim>\<open>simb::MCParticle{trackID, pdgCode, process_name, parentID, mass}\<close>;
  the status code has the constructor's default 1, the other members are empty.
\<close>

definition new_MCParticle :: "int \<Rightarrow> int \<Rightarrow> string \<Rightarrow> int \<Rightarrow> real \<Rightarrow> MCParticle" where
  "new_MCParticle trackID pdgCode process_name parentID mass =
     \<lparr>TrackId = trackID, PdgCode = pdgCode, Process = process_name, Mother = parentID,
      Mass = mass, StatusCode = 1, Polarization = (0, 0, 0), Weight = 0, EndProcess = [],
      Trajectory = [], Daughters = []\<rparr>"

definition NumberTrajectoryPoints :: "MCParticle \<Rightarrow> nat" where
  "NumberTrajectoryPoints p = length (Trajectory p)"

definition AddTrajectoryPoint ::
  "TLorentzVector \<Rightarrow> TLorentzVector \<Rightarrow> string \<Rightarrow> bool \<Rightarrow> MCParticle \<Rightarrow> MCParticle" where
  "AddTrajectoryPoint pos mom process keepTransportation p =
     p\<lparr>Trajectory := Trajectory p @ [(pos, mom, process, keepTransportation)]\<rparr>"

definition AddDaughter :: "int \<Rightarrow> MCParticle \<Rightarrow> MCParticle" where
  "AddDaughter d p = p\<lparr>Daughters := Daughters p @ [d]\<rparr>"

text \<open>\<^verbatim>\<open>sim::MCParticleLite\<close>, the reduced record: identity fields, no trajectory.\<close>

record MCParticleLite =
  LiteStatusCode :: int
  LiteTrackId :: int
  LitePdgCode :: int
  LiteMother :: int
  LiteOrigin :: nat

definition MCParticleLite_of :: "MCParticle \<Rightarrow> MCParticleLite" where
  "MCParticleLite_of p =
     \<lparr>LiteStatusCode = StatusCode p, LiteTrackId = TrackId p, LitePdgCode = PdgCode p,
      LiteMother = Mother p, LiteOrigin = 0\<rparr>"

text \<open>
  Particles live in a store: \<^verbatim>\<open>new simb::MCParticle\<close> takes the next free address, and the
  particle list, the dropped list and the active-particle slot all hold addresses, so that
  a sample added through the active slot is seen through the list.
\<close>

type_synonym addr = nat
type_synonym store = "addr \<Rightarrow> MCParticle"

text \<open>
  Modelled from the spec: \<^verbatim>\<open>sim::ParticleList\<close> and \<^verbatim>\<open>sim::NoParticleId\<close> belong to the
  lardataobj package and are not part of this source file. The list is the Genealogy
  Store's "ordered mapping from track ID to Particle Record": entries in key order, each
  a track ID with a pointer that is null once the record was archived, beside the
  reduced copies of the archived records. A lookup is by the magnitude of the ID,
  because the resolver asks for the negated ID of an ancestor (spec 4.2, step 1).
  \<open>Add\<close> inserts the particle under its own track ID. \<open>erase\<close> removes the entry,
  \<open>Archive\<close> retains a reduced copy and nulls the entry if there is one.
\<close>

record ParticleList =
  entries :: "(int \<times> addr option) list"
  archived :: "(int \<times> MCParticleLite) list"

definition NoParticleId :: int where
  "NoParticleId = - (2 ^ 31)"

definition empty_ParticleList :: ParticleList where
  "empty_ParticleList = \<lparr>entries = [], archived = []\<rparr>"

fun insert_entry :: "int \<Rightarrow> 'v \<Rightarrow> (int \<times> 'v) list \<Rightarrow> (int \<times> 'v) list" where
  "insert_entry k v [] = [(k, v)]"
| "insert_entry k v ((k', v') # xs) =
     (if k < k' then (k, v) # (k', v') # xs
      else if k = k' then (k, v) # xs
      else (k', v') # insert_entry k v xs)"

definition find_entry :: "ParticleList \<Rightarrow> int \<Rightarrow> addr option option" where
  "find_entry pl k = map_of (entries pl) \<bar>k\<bar>"

definition KnownParticle :: "ParticleList \<Rightarrow> int \<Rightarrow> bool" where
  "KnownParticle pl k = (find_entry pl k \<noteq> None)"

definition key :: "store \<Rightarrow> addr \<Rightarrow> int" where
  "key h a = TrackId (h a)"

definition Add :: "store \<Rightarrow> addr \<Rightarrow> ParticleList \<Rightarrow> ParticleList" where
  "Add h a pl = pl\<lparr>entries := insert_entry (key h a) (Some a) (entries pl)\<rparr>"

definition erase :: "int \<Rightarrow> ParticleList \<Rightarrow> ParticleList" where
  "erase k pl = pl\<lparr>entries := filter (\<lambda>e. fst e \<noteq> \<bar>k\<bar>) (entries pl)\<rparr>"

definition Archive :: "store \<Rightarrow> addr \<Rightarrow> ParticleList \<Rightarrow> ParticleList" where
  "Archive h a pl =
     pl\<lparr>entries := map (\<lambda>e. if fst e = key h a then (fst e, None) else e) (entries pl),
        archived := insert_entry (key h a) (MCParticleLite_of (h a)) (archived pl)\<rparr>"

definition size_of :: "ParticleList \<Rightarrow> nat" where
  "size_of pl = length (entries pl)"

subsection \<open>Configuration and members\<close>

text \<open>The parameter set read by the constructor, with the defaults of the \<^verbatim>\<open>get\<close> calls.\<close>

record ParameterSet =
  EnergyCut :: real
  storeTrajectories :: bool
  keepGenTrajectories :: "string list"
  keepEMShowerDaughters :: bool
  NotStoredPhysics :: "string list"
  keepOnlyPrimaryFullTrajectories :: bool
  SparsifyTrajectories :: bool
  SparsifyMargin :: real
  KeepTransportation :: bool
  KeepSecondToLast :: bool
  StoreDroppedMCParticles :: bool

text \<open>
  Modelled from the spec: \<^verbatim>\<open>ParticleInfo_t\<close>, the type of the active-particle slot, is
  declared in the service's header, which is not part of this source file. It is the
  "single-slot current handle": the particle, the keep-full-trajectory decision and the
  index of the particle in its truth record (\<open>None\<close> for
  \<^verbatim>\<open>simb::NoGeneratedParticleIndex\<close>).
\<close>

record ParticleInfo_t =
  particle :: "addr option"
  keepFullTrajectory :: bool
  truthIndex :: "nat option"

definition clear_info :: ParticleInfo_t where
  "clear_info = \<lparr>particle = None, keepFullTrajectory = False, truthIndex = None\<rparr>"

definition hasParticle :: "ParticleInfo_t \<Rightarrow> bool" where
  "hasParticle i = (particle i \<noteq> None)"

definition isPrimary :: "ParticleInfo_t \<Rightarrow> bool" where
  "isPrimary i = (truthIndex i \<noteq> None)"

text \<open>
  The members of the service, in three records: \<open>config\<close> holds the members that only
  the constructor writes, \<open>products\<close> the output collections of \<^verbatim>\<open>endOfEventAction\<close>,
  \<open>service\<close> the members that change during an event. \<open>heap\<close> and \<open>next_addr\<close> are the
  particle store; \<open>fMCLists\<close> is the pointer to the truth-record handles, set by the
  producer before the event.
\<close>

record config =
  fenergyCut :: real
  fstoreTrajectories :: bool
  fkeepGenTrajectories :: "string list"
  fKeepEMShowerDaughters :: bool
  fNotStoredPhysics :: "string list"
  fkeepOnlyPrimaryFullTraj :: bool
  fSparsifyTrajectories :: bool
  fSparsifyMargin :: real
  fKeepTransportation :: bool
  fKeepSecondToLast :: bool
  fStoreDroppedMCParticles :: bool

record products =
  partCol :: "MCParticle list"
  droppedCol :: "int \<rightharpoonup> int set"
  droppedPartCol :: "MCParticleLite list"
  tpassn :: "((nat \<times> nat) \<times> nat \<times> nat option) list"

record service =
  fMCLists :: "MCTruthHandle list"
  heap :: store
  next_addr :: addr
  fCurrentParticle :: ParticleInfo_t
  fParticleList :: ParticleList
  fdroppedParticleList :: "ParticleList option"
  fParentIDMap :: "int \<rightharpoonup> int"
  fTargetIDMap :: "int \<rightharpoonup> int"
  fMCTIndexMap :: "int \<rightharpoonup> nat"
  fMCTPrimProcessKeepMap :: "int \<rightharpoonup> bool"
  fCurrentTrackID :: int
  fTrackIDOffset :: int
  fPrimaryTruthMap :: "int \<rightharpoonup> nat"
  fMCTIndexToGeneratorMap :: "nat \<rightharpoonup> string \<times> bool"
  fNotStoredCounterUMap :: "string \<rightharpoonup> int"
  fdroppedTracksMap :: "int \<rightharpoonup> int set"
  out :: products

datatype error = LogicError | cet_exception | assertion_failure | null_dereference

subsection \<open>GetParentage\<close>

text \<open>
  The \<^verbatim>\<open>while\<close> loop of \<^verbatim>\<open>GetParentage\<close>: \<open>parentid\<close> is the loop variable, \<open>k\<close> the key
  the iterator \<^verbatim>\<open>itr\<close> was looked up with. The loop has no bound, so it is a partial
  function: \<open>None\<close> is a walk that never ends. \<^verbatim>\<open>GetParentage\<close> reads one member,
  \<^verbatim>\<open>fParentIDMap\<close>, which is its first argument.
\<close>

partial_function (option) GetParentage_loop :: "(int \<rightharpoonup> int) \<Rightarrow> int \<Rightarrow> int \<Rightarrow> int option" where
  "GetParentage_loop m parentid k =
     (case m k of None \<Rightarrow> Some parentid | Some p \<Rightarrow> GetParentage_loop m p p)"

declare GetParentage_loop.simps [code]

definition GetParentage :: "(int \<rightharpoonup> int) \<Rightarrow> int \<Rightarrow> int option" where
  "GetParentage fParentIDMap' trackid = GetParentage_loop fParentIDMap' NoParticleId trackid"

subsection \<open>Strings and units\<close>

text \<open>
  \<open>contains s p\<close> is \<^verbatim>\<open>s.find(p) != std::string::npos\<close> (and \<^verbatim>\<open>G4String::contains\<close>);
  \<^verbatim>\<open>s.find(p) == 0\<close> is \<open>prefix p s\<close>.
\<close>

fun contains :: "string \<Rightarrow> string \<Rightarrow> bool" where
  "contains [] p = (p = [])"
| "contains (c # cs) p = (prefix p (c # cs) \<or> contains cs p)"

text \<open>\<^verbatim>\<open>CLHEP/Units/SystemOfUnits.h\<close>: millimetre, nanosecond and MeV are the units.\<close>

definition CLHEP_cm :: real where "CLHEP_cm = 10"
definition CLHEP_ns :: real where "CLHEP_ns = 1"
definition CLHEP_GeV :: real where "CLHEP_GeV = 1000"

subsection \<open>Constructor\<close>

definition default_NotStoredPhysics :: "string list" where
  "default_NotStoredPhysics =
     [''conv'', ''LowEnConversion'', ''Pair'', ''compt'', ''Compt'', ''Brem'', ''phot'',
      ''Photo'', ''Ion'', ''annihil'']"

text \<open>The loop that initialises one rejection counter per excluded process (\<^verbatim>\<open>emplace\<close>).\<close>

fun init_counters :: "string list \<Rightarrow> (string \<rightharpoonup> int) \<Rightarrow> (string \<rightharpoonup> int)" where
  "init_counters [] c = c"
| "init_counters (i # is) c = init_counters is (if c i = None then c(i \<mapsto> 0) else c)"

definition empty_products :: products where
  "empty_products = \<lparr>partCol = [], droppedCol = Map.empty, droppedPartCol = [], tpassn = []\<rparr>"

text \<open>
  The constructor gives the fixed members and the first value of the others; a member it
  does not mention starts empty.
\<close>

definition ParticleListActionService :: "ParameterSet \<Rightarrow> config \<times> service" where
  "ParticleListActionService p =
     (let customNotStored = (NotStoredPhysics p \<noteq> []);
          notStored = (if \<not> keepEMShowerDaughters p \<and> \<not> customNotStored
                       then default_NotStoredPhysics else NotStoredPhysics p)
      in (\<lparr>fenergyCut = EnergyCut p,
           fstoreTrajectories = storeTrajectories p,
           fkeepGenTrajectories = keepGenTrajectories p,
           fKeepEMShowerDaughters = keepEMShowerDaughters p,
           fNotStoredPhysics = notStored,
           fkeepOnlyPrimaryFullTraj = keepOnlyPrimaryFullTrajectories p,
           fSparsifyTrajectories = SparsifyTrajectories p,
           fSparsifyMargin = SparsifyMargin p,
           fKeepTransportation = KeepTransportation p,
           fKeepSecondToLast = KeepSecondToLast p,
           fStoreDroppedMCParticles = StoreDroppedMCParticles p\<rparr>,
          \<lparr>fMCLists = [],
           heap = (\<lambda>a. new_MCParticle 0 0 [] 0 0),
           next_addr = 0,
           fCurrentParticle = clear_info,
           fParticleList = empty_ParticleList,
           fdroppedParticleList =
             (if StoreDroppedMCParticles p then Some empty_ParticleList else None),
           fParentIDMap = Map.empty,
           fTargetIDMap = Map.empty,
           fMCTIndexMap = Map.empty,
           fMCTPrimProcessKeepMap = Map.empty,
           fCurrentTrackID = 0,
           fTrackIDOffset = 0,
           fPrimaryTruthMap = Map.empty,
           fMCTIndexToGeneratorMap = Map.empty,
           fNotStoredCounterUMap =
             (if \<not> keepEMShowerDaughters p then init_counters notStored Map.empty
              else Map.empty),
           fdroppedTracksMap = Map.empty,
           out = empty_products\<rparr>))"

subsection \<open>beginOfEventAction\<close>

text \<open>The inner loop over \<^verbatim>\<open>fkeepGenTrajectories\<close>, left at the first match.\<close>

fun keepable_loop :: "string \<Rightarrow> string list \<Rightarrow> bool" where
  "keepable_loop generator_name [] = False"
| "keepable_loop generator_name (keepableGen # rest) =
     (if generator_name = keepableGen then True else keepable_loop generator_name rest)"

text \<open>
  The loop over the truth-record handles, from index \<open>mcti\<close> on; \<^verbatim>\<open>emplace\<close> leaves an
  existing entry alone.
\<close>

fun generator_loop ::
  "config \<Rightarrow> nat \<Rightarrow> MCTruthHandle list \<Rightarrow> (nat \<rightharpoonup> string \<times> bool) \<Rightarrow>
   (nat \<rightharpoonup> string \<times> bool)" where
  "generator_loop cfg mcti [] g = g"
| "generator_loop cfg mcti (mclistHandle # rest) g =
     (let customKeepTraj = (fkeepGenTrajectories cfg \<noteq> []);
          generator_name = label mclistHandle;
          keepGen = (if fstoreTrajectories cfg
                     then (if \<not> customKeepTraj then True
                           else keepable_loop generator_name (fkeepGenTrajectories cfg))
                     else False)
      in generator_loop cfg (Suc mcti) rest
           (if g mcti = None then g(mcti \<mapsto> (generator_name, keepGen)) else g))"

definition beginOfEventAction :: "config \<Rightarrow> service \<Rightarrow> service" where
  "beginOfEventAction cfg s =
     s\<lparr>fCurrentParticle := clear_info,
       fParticleList := empty_ParticleList,
       fParentIDMap := Map.empty,
       fTargetIDMap := Map.empty,
       fMCTIndexMap := Map.empty,
       fMCTPrimProcessKeepMap := Map.empty,
       fCurrentTrackID := NoParticleId,
       fTrackIDOffset := 0,
       fPrimaryTruthMap := Map.empty,
       fMCTIndexToGeneratorMap := generator_loop cfg 0 (fMCLists s) Map.empty,
       fNotStoredCounterUMap := Map.empty,
       fdroppedTracksMap := Map.empty,
       fdroppedParticleList :=
         (case fdroppedParticleList s of None \<Rightarrow> None | Some d \<Rightarrow> Some empty_ParticleList)\<rparr>"

subsection \<open>preUserTrackingAction\<close>

text \<open>
  The normalisation of the process label of a primary (lines 286 to 303): the process
  name given to the particle and the from-primary-process flag.
\<close>

definition primary_process :: "string \<Rightarrow> string \<times> bool" where
  "primary_process mct_primary_process =
     (if mct_primary_process = ''primary'' then (''primary'', True)
      else if prefix ''primary'' mct_primary_process then (mct_primary_process, False)
      else (''primary'', True))"

text \<open>
  The loop over \<^verbatim>\<open>fNotStoredPhysics\<close> (lines 323 to 334), left at the first excluded
  process found in the name: the \<open>notstore\<close> flag and the rejection counters.
\<close>

fun NotStoredPhysics_loop ::
  "string \<Rightarrow> string list \<Rightarrow> (string \<rightharpoonup> int) \<Rightarrow> bool \<times> (string \<rightharpoonup> int)" where
  "NotStoredPhysics_loop process_name [] c = (False, c)"
| "NotStoredPhysics_loop process_name (p # ps) c =
     (if contains process_name p
      then (True, c(p \<mapsto> (case c p of None \<Rightarrow> 0 | Some old \<Rightarrow> old) + 1))
      else NotStoredPhysics_loop process_name ps c)"

text \<open>\<^verbatim>\<open>fdroppedTracksMap[k].insert(t)\<close>: \<^verbatim>\<open>operator[]\<close> makes a missing set empty first.\<close>

definition insert_dropped :: "(int \<rightharpoonup> int set) \<Rightarrow> int \<Rightarrow> int \<Rightarrow> (int \<rightharpoonup> int set)" where
  "insert_dropped m k t = m(k \<mapsto> insert t (case m k of None \<Rightarrow> {} | Some S \<Rightarrow> S))"

text \<open>
  Lines 335 to 354: the track was made by an excluded process. \<open>parents\<close> is
  \<^verbatim>\<open>fParentIDMap\<close> after line 338, \<open>g\<close> and \<open>g'\<close> are the two calls of \<^verbatim>\<open>GetParentage\<close>,
  \<open>current\<close> is \<^verbatim>\<open>fCurrentTrackID\<close> after line 347.
\<close>

definition notstore_block :: "int \<Rightarrow> int \<Rightarrow> service \<Rightarrow> service option" where
  "notstore_block trackID parentID s =
     (let parents = (fParentIDMap s)(trackID \<mapsto> parentID)
      in case GetParentage parents trackID of
           None \<Rightarrow> None
         | Some g \<Rightarrow>
             (let current = (if \<not> KnownParticle (fParticleList s) (- 1 * g)
                             then NoParticleId else - 1 * g)
              in case GetParentage parents trackID of
                   None \<Rightarrow> None
                 | Some g' \<Rightarrow>
                     Some (s\<lparr>fParentIDMap := parents,
                             fCurrentTrackID := current,
                             fTargetIDMap := (fTargetIDMap s)(trackID \<mapsto> current),
                             fdroppedTracksMap :=
                               insert_dropped (fdroppedTracksMap s) g' trackID\<rparr>)))"

text \<open>Lines 322 to 355: the process-exclusion filter; the first component is \<open>notstore\<close>.\<close>

definition exclusion_filter ::
  "config \<Rightarrow> string \<Rightarrow> int \<Rightarrow> int \<Rightarrow> service \<Rightarrow> (bool \<times> service) option" where
  "exclusion_filter cfg process_name trackID parentID s =
     (if \<not> fKeepEMShowerDaughters cfg then
        (case NotStoredPhysics_loop process_name (fNotStoredPhysics cfg)
                (fNotStoredCounterUMap s) of
           (notstore, counters) \<Rightarrow>
             if notstore
             then (case notstore_block trackID parentID
                          (s\<lparr>fNotStoredCounterUMap := counters\<rparr>) of
                     None \<Rightarrow> None
                   | Some s1 \<Rightarrow> Some (True, s1))
             else Some (False, s\<lparr>fNotStoredCounterUMap := counters\<rparr>))
      else Some (False, s))"

text \<open>
  Lines 361 to 368: the body of the energy cut, up to its \<^verbatim>\<open>return\<close>. \<open>g\<close> is the call
  of \<^verbatim>\<open>GetParentage\<close> of line 361, before the track is put into \<^verbatim>\<open>fParentIDMap\<close>; \<open>g'\<close>
  is the call of line 366, after it.
\<close>

definition energy_cut_block :: "int \<Rightarrow> int \<Rightarrow> service \<Rightarrow> service option" where
  "energy_cut_block trackID parentID s =
     (case GetParentage (fParentIDMap s) trackID of
        None \<Rightarrow> None
      | Some g \<Rightarrow>
          (let parents = (fParentIDMap s)(trackID \<mapsto> parentID)
           in case GetParentage parents trackID of
                None \<Rightarrow> None
              | Some g' \<Rightarrow>
                  Some (s\<lparr>fdroppedTracksMap := insert_dropped (fdroppedTracksMap s) g trackID,
                          fCurrentParticle := clear_info,
                          fParentIDMap := parents,
                          fCurrentTrackID := - 1 * g',
                          fTargetIDMap := (fTargetIDMap s)(trackID \<mapsto> - 1 * g')\<rparr>)))"

definition known_dropped :: "service \<Rightarrow> int \<Rightarrow> bool" where
  "known_dropped s parentID =
     (case fdroppedParticleList s of None \<Rightarrow> False | Some d \<Rightarrow> KnownParticle d parentID)"

text \<open>Lines 375 to 393: the resolution of the parent; the first component is \<open>parentID\<close>.\<close>

definition resolve_parent :: "int \<Rightarrow> int \<Rightarrow> service \<Rightarrow> (int \<times> service) option" where
  "resolve_parent trackID parentID s =
     (if \<not> KnownParticle (fParticleList s) parentID \<and> \<not> known_dropped s parentID then
        (let parents = (fParentIDMap s)(trackID \<mapsto> parentID)
         in case GetParentage parents parentID of
              None \<Rightarrow> None
            | Some pid \<Rightarrow>
                if \<not> KnownParticle (fParticleList s) pid \<and> \<not> known_dropped s parentID
                then Some (parentID, s\<lparr>fParentIDMap := parents\<rparr>)
                else Some (pid, s\<lparr>fParentIDMap := parents\<rparr>))
      else Some (parentID, s))"

text \<open>
  Lines 423 to 432: the keep-full-trajectory decision and \<^verbatim>\<open>fMCTIndexToGeneratorMap\<close>
  after it; \<^verbatim>\<open>fMCTIndexToGeneratorMap[primarymctIndex]\<close> is evaluated only when
  trajectories are stored, and makes a missing entry an empty label with \<open>False\<close>.
\<close>

definition keepFullTrajectory_decision ::
  "config \<Rightarrow> nat \<Rightarrow> bool \<Rightarrow> (nat \<rightharpoonup> string \<times> bool) \<Rightarrow> bool \<times> (nat \<rightharpoonup> string \<times> bool)" where
  "keepFullTrajectory_decision cfg primarymctIndex isFromMCTProcessPrimary generators =
     (if \<not> fstoreTrajectories cfg then (False, generators)
      else
        (let generators' = (if generators primarymctIndex = None
                            then generators(primarymctIndex \<mapsto> ([], False))
                            else generators);
             storable = (case generators' primarymctIndex of
                           None \<Rightarrow> False | Some gen \<Rightarrow> snd gen)
         in (if \<not> storable then False
             else if \<not> fkeepOnlyPrimaryFullTraj cfg then True
             else if isFromMCTProcessPrimary then True
             else False, generators')))"

text \<open>
  Lines 409 to 447: the record is created and, unless it is suppressed, listed. \<open>a\<close> is
  the address given by \<^verbatim>\<open>new\<close>, \<open>created\<close> the members after line 436.
\<close>

definition create_particle ::
  "config \<Rightarrow> G4Track \<Rightarrow> int \<Rightarrow> int \<Rightarrow> string \<Rightarrow> int \<Rightarrow> nat option \<Rightarrow> nat \<Rightarrow> bool \<Rightarrow> bool \<Rightarrow>
   service \<Rightarrow> service" where
  "create_particle cfg track trackID pdgCode process_name parentID primaryIndex primarymctIndex
     isFromMCTProcessPrimary notstore s =
     (let mass = GetMass track / CLHEP_GeV;
          a = next_addr s
      in case keepFullTrajectory_decision cfg primarymctIndex isFromMCTProcessPrimary
                (fMCTIndexToGeneratorMap s) of
           (keep, generators) \<Rightarrow>
             (let created =
                    s\<lparr>heap := (heap s)
                         (a := (new_MCParticle trackID pdgCode process_name parentID mass)
                                 \<lparr>Polarization := GetPolarization track\<rparr>),
                      next_addr := Suc a,
                      fCurrentParticle :=
                        \<lparr>particle = Some a, keepFullTrajectory = keep,
                         truthIndex = primaryIndex\<rparr>,
                      fMCTIndexMap := (fMCTIndexMap s)(trackID \<mapsto> primarymctIndex),
                      fMCTPrimProcessKeepMap :=
                        (fMCTPrimProcessKeepMap s)(trackID \<mapsto> isFromMCTProcessPrimary),
                      fMCTIndexToGeneratorMap := generators\<rparr>
              in if GetProperTime track \<noteq> 0 then created
                 else if notstore then
                   (case fdroppedParticleList created of
                      None \<Rightarrow> created
                    | Some d \<Rightarrow>
                        created\<lparr>fdroppedParticleList := Some (Add (heap created) a d)\<rparr>)
                 else created\<lparr>fParticleList := Add (heap created) a (fParticleList created)\<rparr>))"

text \<open>
  Lines 314 to 407: a track without \<^verbatim>\<open>G4PrimaryParticle\<close>. The result \<open>Inr (None, s)\<close> is
  the \<^verbatim>\<open>return\<close> of the energy cut; \<open>Inr (Some (...), s)\<close> goes on to the creation of the
  record with the process name, the parent, the truth-record index and the two flags.
  \<^verbatim>\<open>fMCTPrimProcessKeepMap[parentID]\<close> makes a missing entry \<open>False\<close>.
\<close>

definition not_primary ::
  "config \<Rightarrow> G4Track \<Rightarrow> int \<Rightarrow> int \<Rightarrow> int \<Rightarrow> service \<Rightarrow>
   (error \<times> service + (string \<times> int \<times> nat \<times> bool \<times> bool) option \<times> service) option" where
  "not_primary cfg track trackID pdgCode parentID s =
     (let process_name = GetCreatorProcessName track
      in case exclusion_filter cfg process_name trackID parentID s of
           None \<Rightarrow> None
         | Some (notstore, s1) \<Rightarrow>
             (let energy = GetKineticEnergy track
              in if energy < fenergyCut cfg \<and> pdgCode \<noteq> 0 then
                   (case energy_cut_block trackID parentID s1 of
                      None \<Rightarrow> None
                    | Some s2 \<Rightarrow> Some (Inr (None, s2)))
                 else
                   (case resolve_parent trackID parentID s1 of
                      None \<Rightarrow> None
                    | Some (parentID', s2) \<Rightarrow>
                        (case fMCTIndexMap s2 parentID' of
                           None \<Rightarrow> Some (Inl (LogicError, s2))
                         | Some primarymctIndex \<Rightarrow>
                             (case fMCTPrimProcessKeepMap s2 parentID' of
                                None \<Rightarrow>
                                  Some (Inr (Some (process_name, parentID', primarymctIndex,
                                                   False, notstore),
                                             s2\<lparr>fMCTPrimProcessKeepMap :=
                                                  (fMCTPrimProcessKeepMap s2)
                                                  (parentID' \<mapsto> False)\<rparr>))
                              | Some isFromMCTProcessPrimary \<Rightarrow>
                                  Some (Inr (Some (process_name, parentID', primarymctIndex,
                                                   isFromMCTProcessPrimary, notstore),
                                             s2)))))))"

definition preUserTrackingAction ::
  "config \<Rightarrow> G4Track \<Rightarrow> service \<Rightarrow> (error \<times> service + service) option" where
  "preUserTrackingAction cfg track s =
     (let pdgCode = GetPDGEncoding track;
          trackID = GetTrackID track + fTrackIDOffset s;
          s1 = s\<lparr>fCurrentTrackID := trackID,
                 fTargetIDMap := (fTargetIDMap s)(trackID \<mapsto> trackID)\<rparr>;
          parentID = GetParentID track + fTrackIDOffset s
      in case GetPrimaryParticle track of
           Some primaryParticle \<Rightarrow>
             (case primaryParticle of
                Some ppi \<Rightarrow>
                  (case primary_process (MCParticleProcess ppi) of
                     (process_name, isFromMCTProcessPrimary) \<Rightarrow>
                       Some (Inr (create_particle cfg track trackID pdgCode process_name 0
                                    (MCParticleIndex ppi) (MCTruthIndex ppi)
                                    isFromMCTProcessPrimary False s1)))
              | None \<Rightarrow>
                  Some (Inr (create_particle cfg track trackID pdgCode ''unknown'' parentID
                               None 0 False False s1)))
         | None \<Rightarrow>
             (case not_primary cfg track trackID pdgCode parentID s1 of
                None \<Rightarrow> None
              | Some (Inl e) \<Rightarrow> Some (Inl e)
              | Some (Inr (None, s2)) \<Rightarrow> Some (Inr s2)
              | Some (Inr (Some (process_name, parentID', primarymctIndex,
                                 isFromMCTProcessPrimary, notstore), s2)) \<Rightarrow>
                  Some (Inr (create_particle cfg track trackID pdgCode process_name parentID'
                               None primarymctIndex isFromMCTProcessPrimary notstore s2))))"

subsection \<open>Trajectory points\<close>

text \<open>\<^verbatim>\<open>AddPointToCurrentParticle\<close>, for the active particle at address \<open>a\<close>.\<close>

definition AddPointToCurrentParticle ::
  "config \<Rightarrow> addr \<Rightarrow> TLorentzVector \<Rightarrow> TLorentzVector \<Rightarrow> string \<Rightarrow> store \<Rightarrow> store" where
  "AddPointToCurrentParticle cfg a pos mom process h =
     h(a := AddTrajectoryPoint pos mom process (fKeepTransportation cfg) (h a))"

text \<open>The two four-vectors built from a step point, in cm, ns and GeV.\<close>

definition fourPos :: "G4StepPoint \<Rightarrow> TLorentzVector" where
  "fourPos pt =
     (case GetPosition pt of
        (x, y, z) \<Rightarrow> (x / CLHEP_cm, y / CLHEP_cm, z / CLHEP_cm,
                      G4double_over (GetPointGlobalTime pt) CLHEP_ns))"

definition fourMom :: "G4StepPoint \<Rightarrow> TLorentzVector" where
  "fourMom pt =
     (case GetMomentum pt of
        (x, y, z) \<Rightarrow> (x / CLHEP_GeV, y / CLHEP_GeV, z / CLHEP_GeV,
                      Finite (GetTotalEnergy pt / CLHEP_GeV)))"

subsection \<open>postUserTrackingAction\<close>

text \<open>Lines 513 to 515: the truth-record index of a primary is remembered.\<close>

definition store_truth :: "addr \<Rightarrow> service \<Rightarrow> service" where
  "store_truth a s =
     (if isPrimary (fCurrentParticle s)
      then (case truthIndex (fCurrentParticle s) of
              None \<Rightarrow> s
            | Some i \<Rightarrow> s\<lparr>fPrimaryTruthMap := (fPrimaryTruthMap s)(TrackId (heap s a) \<mapsto> i)\<rparr>)
      else s)"

text \<open>
  \<^verbatim>\<open>simb::MCParticle::SparsifyTrajectory\<close> belongs to nusimdata; it is the parameter
  \<open>SparsifyTrajectory\<close> of the callback. \<open>weighted\<close> is the store after line 456.
\<close>

definition postUserTrackingAction ::
  "(real \<Rightarrow> bool \<Rightarrow> MCParticle \<Rightarrow> MCParticle) \<Rightarrow> config \<Rightarrow> G4Track option \<Rightarrow> service \<Rightarrow>
   service" where
  "postUserTrackingAction SparsifyTrajectory cfg aTrack s =
     (case particle (fCurrentParticle s) of
        None \<Rightarrow> s
      | Some a \<Rightarrow>
          (case aTrack of
             None \<Rightarrow> store_truth a s
           | Some t \<Rightarrow>
               (let weighted = (heap s)(a := (heap s a)\<lparr>Weight := GetWeight t\<rparr>);
                    postStepPoint = GetPostStepPoint (GetStep t)
                in case GetProcessDefinedStep postStepPoint of
                     None \<Rightarrow>
                       (let key_to_erase = key weighted a
                        in s\<lparr>heap := weighted,
                             fParticleList := erase key_to_erase (fParticleList s),
                             fdroppedParticleList :=
                               (if \<not> keepFullTrajectory (fCurrentParticle s)
                                then (case fdroppedParticleList s of
                                        None \<Rightarrow> None
                                      | Some d \<Rightarrow> Some (Archive weighted a d))
                                else fdroppedParticleList s),
                             fCurrentParticle := clear_info\<rparr>)
                   | Some process \<Rightarrow>
                       (let ended = weighted(a := (weighted a)\<lparr>EndProcess := process\<rparr>)
                        in store_truth a
                             (s\<lparr>heap :=
                                  (if \<not> keepFullTrajectory (fCurrentParticle s)
                                   then AddPointToCurrentParticle cfg a (fourPos postStepPoint)
                                          (fourMom postStepPoint) process ended
                                   else if fSparsifyTrajectories cfg
                                   then ended(a := SparsifyTrajectory (fSparsifyMargin cfg)
                                                     (fKeepSecondToLast cfg) (ended a))
                                   else ended)\<rparr>)))))"

subsection \<open>userSteppingAction\<close>

text \<open>
  Lines 532 to 541: the correction of the post-step time of a step of a track with
  particle code 0. It changes Geant4's step, so the callback gives the step back.
  The step's velocity is a quotient by the time of the step and the corrected time holds
  a quotient by the track's velocity; either divisor may be zero.
\<close>

definition corrected_step :: "G4Track \<Rightarrow> G4Track" where
  "corrected_step track =
     (let step = GetStep track;
          globalTime = GetGlobalTime track;
          velocity_G4 = GetVelocity track;
          velocity_step = G4double_divide (GetStepLength step) (GetDeltaTime step)
      in if GetPDGEncoding track = 0 \<and>
            G4double_greater (fabs (G4double_minus (Finite velocity_G4) velocity_step)) 0.0001
         then track\<lparr>GetStep := step\<lparr>GetPostStepPoint := (GetPostStepPoint step)
                  \<lparr>GetPointGlobalTime :=
                     G4double_plus (Finite (globalTime - GetDeltaTime step))
                       (G4double_divide (GetStepLength step) velocity_G4)\<rparr>\<rparr>\<rparr>
         else track)"

definition userSteppingAction :: "config \<Rightarrow> G4Track \<Rightarrow> service \<Rightarrow> G4Track \<times> service" where
  "userSteppingAction cfg track s =
     (case particle (fCurrentParticle s) of
        None \<Rightarrow> (track, s)
      | Some a \<Rightarrow>
          (case GetProcessDefinedStep (GetPostStepPoint (GetStep track)) of
             None \<Rightarrow> (track, s)
           | Some process \<Rightarrow>
               (let track' = corrected_step track;
                    step = GetStep track';
                    started = (if NumberTrajectoryPoints (heap s a) = 0
                               then AddPointToCurrentParticle cfg a
                                      (fourPos (GetPreStepPoint step))
                                      (fourMom (GetPreStepPoint step)) ''Start'' (heap s)
                               else heap s);
                    ignoreProcess = contains process ''StepLimiter''
                in (track',
                    s\<lparr>heap :=
                         (if \<not> ignoreProcess \<and> keepFullTrajectory (fCurrentParticle s)
                          then AddPointToCurrentParticle cfg a
                                 (fourPos (GetPostStepPoint step))
                                 (fourMom (GetPostStepPoint step)) process started
                          else started)\<rparr>))))"

subsection \<open>The lists yielded at the end of the event\<close>

text \<open>The loops that look for the highest track ID of a list.\<close>

fun highest_loop :: "(int \<times> 'v) list \<Rightarrow> int \<Rightarrow> int" where
  "highest_loop [] highestID = highestID"
| "highest_loop (pn # rest) highestID =
     highest_loop rest (if fst pn > highestID then fst pn else highestID)"

text \<open>
  \<^verbatim>\<open>YieldList\<close> and \<^verbatim>\<open>YieldDroppedList\<close> return a reference to the list for the caller to
  move from: the result is the list and the members after the call.
\<close>

definition YieldList :: "service \<Rightarrow> ParticleList \<times> service" where
  "YieldList s =
     (let highestID = highest_loop (entries (fParticleList s)) 0;
          highestID' = (case fdroppedParticleList s of
                          None \<Rightarrow> highestID
                        | Some d \<Rightarrow> highest_loop (entries d) highestID)
      in (fParticleList s,
          if size_of (fParticleList s) \<noteq> 0
          then s\<lparr>fTrackIDOffset := int_wrap (highestID' + 1)\<rparr> else s))"

definition YieldDroppedList :: "service \<Rightarrow> error \<times> service + ParticleList \<times> service" where
  "YieldDroppedList s =
     (case fdroppedParticleList s of
        None \<Rightarrow> Inl (cet_exception, s)
      | Some d \<Rightarrow>
          (let highestID = highest_loop (entries (fParticleList s)) 0;
               highestID' = highest_loop (entries d) highestID
           in Inr (d, if size_of (fParticleList s) \<noteq> 0
                      then s\<lparr>fTrackIDOffset := int_wrap (highestID' + 1)\<rparr> else s)))"

definition isDropped :: "store \<Rightarrow> addr option \<Rightarrow> bool" where
  "isDropped h p = (case p of None \<Rightarrow> True | Some a \<Rightarrow> Trajectory (h a) = [])"

definition GetPrimaryTruthIndex :: "service \<Rightarrow> int \<Rightarrow> nat option" where
  "GetPrimaryTruthIndex s trackId = fPrimaryTruthMap s trackId"

subsection \<open>endOfEventAction\<close>

text \<open>
  Modelled from the spec: \<^verbatim>\<open>sim::ParticleList::GetMotherOf\<close> (lardataobj) gives the parent
  ID of a listed particle, from the reduced copy when the record was archived.
\<close>

definition GetMotherOf :: "store \<Rightarrow> ParticleList \<Rightarrow> int \<Rightarrow> int" where
  "GetMotherOf h pl k =
     (case find_entry pl k of
        Some (Some a) \<Rightarrow> Mother (h a)
      | Some None \<Rightarrow> (case map_of (archived pl) \<bar>k\<bar> of
                       None \<Rightarrow> NoParticleId | Some l \<Rightarrow> LiteMother l)
      | None \<Rightarrow> NoParticleId)"

text \<open>The function object \<^verbatim>\<open>UpdateDaughterInformation\<close>, applied to one entry of the list.\<close>

definition UpdateDaughterInformation ::
  "ParticleList \<Rightarrow> int \<times> addr option \<Rightarrow> store \<Rightarrow> store" where
  "UpdateDaughterInformation particleList particleListEntry h =
     (let particleID = fst particleListEntry;
          parentID = GetMotherOf h particleList particleID
      in if parentID \<le> 0 then h
         else (case find_entry particleList parentID of
                 None \<Rightarrow> h
               | Some None \<Rightarrow> h
               | Some (Some parent) \<Rightarrow> h(parent := AddDaughter particleID (h parent))))"

fun for_each_UpdateDaughterInformation ::
  "ParticleList \<Rightarrow> (int \<times> addr option) list \<Rightarrow> store \<Rightarrow> store" where
  "for_each_UpdateDaughterInformation pl [] h = h"
| "for_each_UpdateDaughterInformation pl (e # es) h =
     for_each_UpdateDaughterInformation pl es (UpdateDaughterInformation pl e h)"

text \<open>
  Lines 778 to 800: the loop over the yielded particles for the truth record \<open>mct\<close>, the
  \<open>nMCTruths\<close>-th of the event. \<^verbatim>\<open>fMCTIndexMap[...]\<close> makes a missing entry 0. The
  \<^verbatim>\<open>assert\<close> is a branch of its own.
\<close>

fun particle_loop ::
  "nat \<times> nat \<Rightarrow> nat \<Rightarrow> addr option list \<Rightarrow> service \<Rightarrow> error \<times> service + service" where
  "particle_loop mct nMCTruths [] s = Inr s"
| "particle_loop mct nMCTruths (p # ps) s =
     (case p of
        None \<Rightarrow> Inl (null_dereference, s)
      | Some a \<Rightarrow>
          (let trackId = TrackId (heap s a);
               gen_index = (case fMCTIndexMap s trackId of None \<Rightarrow> 0 | Some i \<Rightarrow> i);
               s1 = (if fMCTIndexMap s trackId = None
                     then s\<lparr>fMCTIndexMap := (fMCTIndexMap s)(trackId \<mapsto> 0)\<rparr> else s)
           in if gen_index \<noteq> nMCTruths then particle_loop mct nMCTruths ps s1
              else if \<not> (NumberTrajectoryPoints (heap s a) \<noteq> 0)
              then Inl (assertion_failure, s1)
              else
                (let truthInfo = GetPrimaryTruthIndex s trackId
                 in if truthInfo = None \<and> Mother (heap s a) = 0
                    then Inl (LogicError, s1)
                    else particle_loop mct nMCTruths ps
                           (s1\<lparr>out := (out s)
                                 \<lparr>partCol := partCol (out s) @ [heap s a],
                                  tpassn := tpassn (out s) @
                                    [(mct, length (partCol (out s) @ [heap s a]) - 1,
                                      truthInfo)]\<rparr>\<rparr>))))"

text \<open>Lines 802 to 810: the loop over the yielded dropped particles.\<close>

fun dropped_loop :: "MCTruth \<Rightarrow> addr option list \<Rightarrow> service \<Rightarrow> service" where
  "dropped_loop mct [] s = s"
| "dropped_loop mct (p # ps) s =
     (if isDropped (heap s) p then dropped_loop mct ps s
      else (case p of
              None \<Rightarrow> dropped_loop mct ps s
            | Some a \<Rightarrow>
                if StatusCode (heap s a) \<noteq> 1 then dropped_loop mct ps s
                else
                  (let mini_mcp = (MCParticleLite_of (heap s a))\<lparr>LiteOrigin := Origin mct\<rparr>
                   in dropped_loop mct ps
                        (s\<lparr>out := (out s)\<lparr>droppedPartCol :=
                                            droppedPartCol (out s) @ [mini_mcp]\<rparr>\<rparr>))))"

text \<open>
  The loop over the truth records of one handle, from index \<open>m\<close> on, and the loop over
  the handles, from index \<open>mcl\<close> on. The counter \<open>nMCTruths\<close> runs through both.
\<close>

fun truth_loop ::
  "config \<Rightarrow> ParticleList \<Rightarrow> ParticleList \<Rightarrow> nat \<Rightarrow> nat \<Rightarrow> MCTruth list \<Rightarrow> nat \<Rightarrow> service \<Rightarrow>
   error \<times> service + nat \<times> service" where
  "truth_loop cfg particleList droppedParticleList mcl m [] nMCTruths s = Inr (nMCTruths, s)"
| "truth_loop cfg particleList droppedParticleList mcl m (mct # rest) nMCTruths s =
     (case particle_loop (mcl, m) nMCTruths (map snd (entries particleList)) s of
        Inl e \<Rightarrow> Inl e
      | Inr s1 \<Rightarrow>
          (let s2 = (if fStoreDroppedMCParticles cfg
                     then dropped_loop mct (map snd (entries droppedParticleList)) s1
                     else s1)
           in truth_loop cfg particleList droppedParticleList mcl (Suc m) rest
                (Suc nMCTruths)
                (s2\<lparr>out := (out s2)\<lparr>droppedCol := fdroppedTracksMap s2\<rparr>\<rparr>)))"

fun handle_loop ::
  "config \<Rightarrow> ParticleList \<Rightarrow> ParticleList \<Rightarrow> nat \<Rightarrow> MCTruthHandle list \<Rightarrow> nat \<Rightarrow> service \<Rightarrow>
   error \<times> service + nat \<times> service" where
  "handle_loop cfg particleList droppedParticleList mcl [] nMCTruths s = Inr (nMCTruths, s)"
| "handle_loop cfg particleList droppedParticleList mcl (mclistHandle # rest) nMCTruths s =
     (case truth_loop cfg particleList droppedParticleList mcl 0 (truths mclistHandle)
             nMCTruths s of
        Inl e \<Rightarrow> Inl e
      | Inr (nMCTruths', s1) \<Rightarrow>
          handle_loop cfg particleList droppedParticleList (Suc mcl) rest nMCTruths' s1)"

text \<open>
  Lines 768 to 771: the local lists are move-constructed from the yielded references,
  which leaves the member lists empty.
\<close>

definition yield_lists :: "service \<Rightarrow> error \<times> service + ParticleList \<times> ParticleList \<times> service" where
  "yield_lists s =
     (case YieldList s of
        (particleList, s1) \<Rightarrow>
          (let s2 = s1\<lparr>fParticleList := empty_ParticleList\<rparr>
           in if fdroppedParticleList s2 \<noteq> None
              then (case YieldDroppedList s2 of
                      Inl e \<Rightarrow> Inl e
                    | Inr (droppedParticleList, s3) \<Rightarrow>
                        Inr (particleList, droppedParticleList,
                             s3\<lparr>fdroppedParticleList := Some empty_ParticleList\<rparr>))
              else Inr (particleList, empty_ParticleList, s2)))"

definition endOfEventAction :: "config \<Rightarrow> service \<Rightarrow> error \<times> service + service" where
  "endOfEventAction cfg s =
     (case yield_lists
             (s\<lparr>out := empty_products,
                heap := for_each_UpdateDaughterInformation (fParticleList s)
                          (entries (fParticleList s)) (heap s)\<rparr>) of
        Inl e \<Rightarrow> Inl e
      | Inr (particleList, droppedParticleList, s1) \<Rightarrow>
          (case handle_loop cfg particleList droppedParticleList 0 (fMCLists s1) 0 s1 of
             Inl e \<Rightarrow> Inl e
           | Inr (nMCTruths, s2) \<Rightarrow> Inr (s2\<lparr>fTrackIDOffset := 0\<rparr>)))"

subsection \<open>Outcomes of a callback\<close>

text \<open>
  \<open>returns r\<close>: the callback came back without an exception; \<open>returned r\<close> holds the
  members it came back with.
\<close>

definition returned :: "(error \<times> service + service) option \<Rightarrow> service option" where
  "returned r = (case r of Some (Inr s) \<Rightarrow> Some s | _ \<Rightarrow> None)"

definition returns :: "(error \<times> service + service) option \<Rightarrow> bool" where
  "returns r = (case r of Some (Inr s) \<Rightarrow> True | _ \<Rightarrow> False)"

subsection \<open>The keep-full-trajectory decision as the specification words it\<close>

text \<open>
  The ordered chain of the specification: storage disabled gives \<open>False\<close>; else a
  generator that is not storable gives \<open>False\<close>; else a disabled only-primary policy
  gives \<open>True\<close>; else the from-primary-process flag decides.
\<close>

definition keepFullTrajectory_chain :: "bool \<Rightarrow> bool \<Rightarrow> bool \<Rightarrow> bool \<Rightarrow> bool" where
  "keepFullTrajectory_chain storage storable only_primary from_primary =
     (if \<not> storage then False
      else if \<not> storable then False
      else if \<not> only_primary then True
      else from_primary)"

text \<open>
  Whether the generator of the truth record with index \<open>mcti\<close> is marked storable in the
  Generator Keep-Map of the members \<open>s\<close>, and the from-primary-process flag that the
  members record for the track \<open>trackID\<close>.
\<close>

definition generator_storable :: "service \<Rightarrow> nat \<Rightarrow> bool" where
  "generator_storable s mcti =
     (case fMCTIndexToGeneratorMap s mcti of None \<Rightarrow> False | Some g \<Rightarrow> snd g)"

definition from_primary_process :: "service \<Rightarrow> int \<Rightarrow> bool" where
  "from_primary_process s trackID = (fMCTPrimProcessKeepMap s trackID = Some True)"

subsection \<open>Example inputs\<close>

definition example_parameters :: ParameterSet where
  "example_parameters =
     \<lparr>EnergyCut = 1, storeTrajectories = True, keepGenTrajectories = [],
      keepEMShowerDaughters = False, NotStoredPhysics = [],
      keepOnlyPrimaryFullTrajectories = True, SparsifyTrajectories = False,
      SparsifyMargin = 0.015, KeepTransportation = False, KeepSecondToLast = False,
      StoreDroppedMCParticles = True\<rparr>"

definition example_point :: "string option \<Rightarrow> G4StepPoint" where
  "example_point process =
     \<lparr>GetPosition = (0, 0, 0), GetPointGlobalTime = Finite 0, GetMomentum = (0, 0, 0),
      GetTotalEnergy = 0, GetProcessDefinedStep = process\<rparr>"

definition example_step :: "string option \<Rightarrow> G4Step" where
  "example_step process =
     \<lparr>GetPreStepPoint = example_point None, GetPostStepPoint = example_point process,
      GetStepLength = 1, GetDeltaTime = 1\<rparr>"

text \<open>A primary with track ID 1 whose truth record names the given process.\<close>

definition example_primary :: "string \<Rightarrow> G4Track" where
  "example_primary process =
     \<lparr>GetTrackID = 1, GetParentID = 0, GetPDGEncoding = 11, GetCreatorProcessName = [],
      GetKineticEnergy = 1000, GetMass = 0, GetPolarization = (0, 0, 0), GetProperTime = 0,
      GetPrimaryParticle =
        Some (Some \<lparr>MCParticleIndex = Some 0, MCTruthIndex = 0, MCParticleProcess = process\<rparr>),
      GetWeight = 1, GetGlobalTime = 0, GetVelocity = 1,
      GetStep = example_step (Some ''eIoni'')\<rparr>"

text \<open>A secondary with track ID 2 and parent 1, made by the given process.\<close>

definition example_secondary :: "string \<Rightarrow> real \<Rightarrow> G4Track" where
  "example_secondary process energy =
     \<lparr>GetTrackID = 2, GetParentID = 1, GetPDGEncoding = 22, GetCreatorProcessName = process,
      GetKineticEnergy = energy, GetMass = 0, GetPolarization = (0, 0, 0), GetProperTime = 0,
      GetPrimaryParticle = None,
      GetWeight = 1, GetGlobalTime = 0, GetVelocity = 1,
      GetStep = example_step (Some ''phot'')\<rparr>"

definition example_config :: config where
  "example_config = fst (ParticleListActionService example_parameters)"

text \<open>The service as constructed, with one truth record of one generator.\<close>

definition example_service :: service where
  "example_service =
     (snd (ParticleListActionService example_parameters))
       \<lparr>fMCLists := [\<lparr>label = ''generator'', truths = [\<lparr>Origin = 0, NParticles = 1\<rparr>]\<rparr>]\<rparr>"

definition example_begin :: service where
  "example_begin = beginOfEventAction example_config example_service"

text \<open>The members after the admission of the example primary.\<close>

definition example_admitted :: "string \<Rightarrow> service" where
  "example_admitted process =
     the (returned (preUserTrackingAction example_config (example_primary process)
                      example_begin))"

subsection \<open>Track IDs of a list\<close>

definition track_ids :: "ParticleList \<Rightarrow> int set" where
  "track_ids pl = fst ` set (entries pl)"

subsection \<open>Further example inputs\<close>

text \<open>The service as constructed without a dropped-particle list.\<close>

definition example_without_dropped_list :: service where
  "example_without_dropped_list =
     snd (ParticleListActionService (example_parameters\<lparr>StoreDroppedMCParticles := False\<rparr>))"

text \<open>A sparsification that keeps every point.\<close>

definition example_sparsify :: "real \<Rightarrow> bool \<Rightarrow> MCParticle \<Rightarrow> MCParticle" where
  "example_sparsify margin keep_second_to_last p = p"

text \<open>The example primary at its end, with a last step that the given process defined.\<close>

definition example_ending :: "string option \<Rightarrow> G4Track" where
  "example_ending process = (example_primary ''primary'')\<lparr>GetStep := example_step process\<rparr>"

subsection \<open>Vocabulary of the properties\<close>

text \<open>
  Causal order of the parent-substitution map: every entry leads from a track ID to a
  smaller ID that is not negative, as the parent IDs of Geant4 do.
\<close>

definition causal :: "(int \<rightharpoonup> int) \<Rightarrow> bool" where
  "causal m = (\<forall>k v. m k = Some v \<longrightarrow> 0 \<le> v \<and> v < k)"

text \<open>The members after a callback that came back or threw; the exception it threw.\<close>

definition members_after :: "error \<times> service + service \<Rightarrow> service" where
  "members_after r = (case r of Inl (e, s) \<Rightarrow> s | Inr s \<Rightarrow> s)"

definition thrown :: "(error \<times> service + service) option \<Rightarrow> error option" where
  "thrown r = (case r of Some (Inl (e, s)) \<Rightarrow> Some e | _ \<Rightarrow> None)"

text \<open>
  The two conditions of the filters: the process-exclusion filter is on and the creator
  process name contains an excluded process; the kinetic energy is below the threshold
  and the particle code is not 0.
\<close>

definition excluded_process :: "config \<Rightarrow> string \<Rightarrow> bool" where
  "excluded_process cfg process_name =
     (\<not> fKeepEMShowerDaughters cfg \<and>
      (\<exists>p \<in> set (fNotStoredPhysics cfg). contains process_name p))"

definition energy_cut :: "config \<Rightarrow> G4Track \<Rightarrow> bool" where
  "energy_cut cfg track =
     (GetKineticEnergy track < fenergyCut cfg \<and> GetPDGEncoding track \<noteq> 0)"

text \<open>The parent that lines 375 to 393 resolve for a track.\<close>

definition resolved_parent :: "service \<Rightarrow> int \<Rightarrow> int \<Rightarrow> int option" where
  "resolved_parent s trackID parentID = map_option fst (resolve_parent trackID parentID s)"

subsection \<open>The example event\<close>

text \<open>The members after the admission of the example secondary, the primary being active.\<close>

definition example_admitted_secondary :: "string \<Rightarrow> real \<Rightarrow> service" where
  "example_admitted_secondary process energy =
     the (returned (preUserTrackingAction example_config (example_secondary process energy)
                      (example_admitted ''primary'')))"

subsection \<open>Further states of the example event\<close>

text \<open>
  The example primary ends without a process and is erased; then the example secondary
  comes, below the energy cut.
\<close>

definition example_erased :: service where
  "example_erased =
     postUserTrackingAction example_sparsify example_config (Some (example_ending None))
       (example_admitted ''primary'')"

definition example_orphan :: service where
  "example_orphan =
     the (returned (preUserTrackingAction example_config (example_secondary ''Decay'' 0.5)
                      example_erased))"

text \<open>
  One session: the example primary is admitted, takes one step and ends; then the event
  ends. \<open>example_tracked\<close> is the session before the end of the event.
\<close>

definition example_tracked :: "service \<Rightarrow> service" where
  "example_tracked s =
     postUserTrackingAction example_sparsify example_config
       (Some (example_ending (Some ''eIoni'')))
       (snd (userSteppingAction example_config (example_ending (Some ''eIoni''))
          (the (returned (preUserTrackingAction example_config (example_primary ''primary'')
                            (beginOfEventAction example_config s))))))"

definition example_session :: "service \<Rightarrow> error \<times> service + service" where
  "example_session s = endOfEventAction example_config (example_tracked s)"

text \<open>The members after the admission of the example primary in a second session.\<close>

definition example_second_admitted :: service where
  "example_second_admitted =
     the (returned (preUserTrackingAction example_config (example_primary ''primary'')
            (beginOfEventAction example_config (projr (example_session example_service)))))"

subsection \<open>The callbacks of one track and of one event\<close>

text \<open>
  The callbacks in the order in which Geant4's tracking manager calls them: for one
  track \<^verbatim>\<open>preUserTrackingAction\<close>, then \<^verbatim>\<open>userSteppingAction\<close> for each of its steps, then
  \<^verbatim>\<open>postUserTrackingAction\<close>; for the tracks of an event one track after the other. An
  exception of the admission ends the event.
\<close>

record tracked =
  admission :: G4Track
  stepped :: "G4Track list"
  ended :: G4Track

















section \<open>Verified properties\<close>

subsection \<open>Auxiliary facts\<close>

lemma returnsD: "returns r \<Longrightarrow> r = Some (Inr (the (returned r)))"
  by (auto simp: returns_def returned_def split: option.splits sum.splits)

lemma keepFullTrajectory_decision_eq:
  "keepFullTrajectory_decision cfg i b g =
     (fstoreTrajectories cfg \<and> (case g i of None \<Rightarrow> False | Some e \<Rightarrow> snd e)
      \<and> (\<not> fkeepOnlyPrimaryFullTraj cfg \<or> b),
      if fstoreTrajectories cfg \<and> g i = None then g(i \<mapsto> ([], False)) else g)"
  by (simp add: keepFullTrajectory_decision_def Let_def split: option.splits)

lemma create_particle_fields:
  "fCurrentParticle (create_particle cfg track tid pdg pn pid pidx mcti isp ns s) =
     \<lparr>particle = Some (next_addr s),
      keepFullTrajectory = (fstoreTrajectories cfg \<and>
         (case fMCTIndexToGeneratorMap s mcti of None \<Rightarrow> False | Some g \<Rightarrow> snd g)
         \<and> (\<not> fkeepOnlyPrimaryFullTraj cfg \<or> isp)),
      truthIndex = pidx\<rparr>"
  "fMCTIndexMap (create_particle cfg track tid pdg pn pid pidx mcti isp ns s) =
     (fMCTIndexMap s)(tid \<mapsto> mcti)"
  "fMCTPrimProcessKeepMap (create_particle cfg track tid pdg pn pid pidx mcti isp ns s) =
     (fMCTPrimProcessKeepMap s)(tid \<mapsto> isp)"
  "fMCTIndexToGeneratorMap (create_particle cfg track tid pdg pn pid pidx mcti isp ns s) =
     (if fstoreTrajectories cfg \<and> fMCTIndexToGeneratorMap s mcti = None
      then (fMCTIndexToGeneratorMap s)(mcti \<mapsto> ([], False))
      else fMCTIndexToGeneratorMap s)"
  "fParentIDMap (create_particle cfg track tid pdg pn pid pidx mcti isp ns s) = fParentIDMap s"
  "fTargetIDMap (create_particle cfg track tid pdg pn pid pidx mcti isp ns s) = fTargetIDMap s"
  "fCurrentTrackID (create_particle cfg track tid pdg pn pid pidx mcti isp ns s) =
     fCurrentTrackID s"
  "fdroppedTracksMap (create_particle cfg track tid pdg pn pid pidx mcti isp ns s) =
     fdroppedTracksMap s"
  "fTrackIDOffset (create_particle cfg track tid pdg pn pid pidx mcti isp ns s) =
     fTrackIDOffset s"
  "next_addr (create_particle cfg track tid pdg pn pid pidx mcti isp ns s) = Suc (next_addr s)"
  "heap (create_particle cfg track tid pdg pn pid pidx mcti isp ns s) =
     (heap s)(next_addr s := (new_MCParticle tid pdg pn pid (GetMass track / CLHEP_GeV))
                               \<lparr>Polarization := GetPolarization track\<rparr>)"
  "fParticleList (create_particle cfg track tid pdg pn pid pidx mcti isp ns s) =
     (if GetProperTime track = 0 \<and> \<not> ns
      then (fParticleList s)\<lparr>entries :=
             insert_entry tid (Some (next_addr s)) (entries (fParticleList s))\<rparr>
      else fParticleList s)"
  "fdroppedParticleList (create_particle cfg track tid pdg pn pid pidx mcti isp ns s) =
     (if GetProperTime track = 0 \<and> ns
      then (case fdroppedParticleList s of None \<Rightarrow> None
            | Some d \<Rightarrow>
                Some (d\<lparr>entries := insert_entry tid (Some (next_addr s)) (entries d)\<rparr>))
      else fdroppedParticleList s)"
  by (simp_all add: create_particle_def keepFullTrajectory_decision_eq Let_def Add_def key_def
      new_MCParticle_def split: option.splits)

text \<open>A callback that comes back with an active particle has created its record.\<close>

lemma preUserTrackingAction_created:
  assumes "preUserTrackingAction cfg track s = Some (Inr s')"
    and "hasParticle (fCurrentParticle s')"
  shows "\<exists>pn pid pidx mcti isp ns s0.
     s' = create_particle cfg track (GetTrackID track + fTrackIDOffset s)
            (GetPDGEncoding track) pn pid pidx mcti isp ns s0"
  using assms
  by (auto simp add: preUserTrackingAction_def not_primary_def Let_def energy_cut_block_def
      hasParticle_def clear_info_def
      split: option.splits sum.splits prod.splits if_splits) blast+

subsection \<open>The process label of a primary\<close>

lemma primary_process_cases:
  "(l = ''primary'' \<longrightarrow> primary_process l = (''primary'', True)) \<and>
   (prefix ''primary'' l \<and> l \<noteq> ''primary'' \<longrightarrow> primary_process l = (l, False)) \<and>
   (\<not> prefix ''primary'' l \<longrightarrow> primary_process l = (''primary'', True))"
  by (auto simp add: primary_process_def)

lemma returned_Inr: "returned (Some (Inr s)) = Some s"
  by (simp add: returned_def)

text \<open>
  Claim C7. A track with primary-particle provenance is always admitted; its record has
  parent ID 0, and its process label is normalised in three exclusive cases: the label
  \<open>primary\<close> is kept and the from-primary-process flag is set; a label that starts with
  \<open>primary\<close> without being \<open>primary\<close> is kept and the flag is cleared; any other label
  is overridden by \<open>primary\<close> and the flag is set.
\<close>

theorem primary_provenance_normalised:
  assumes "GetPrimaryParticle track = Some (Some ppi)"
  shows "\<exists>s'. preUserTrackingAction cfg track s = Some (Inr s') \<and>
     particle (fCurrentParticle s') = Some (next_addr s) \<and>
     TrackId (heap s' (next_addr s)) = GetTrackID track + fTrackIDOffset s \<and>
     Mother (heap s' (next_addr s)) = 0 \<and>
     (MCParticleProcess ppi = ''primary'' \<longrightarrow>
        Process (heap s' (next_addr s)) = ''primary'' \<and>
        fMCTPrimProcessKeepMap s' (GetTrackID track + fTrackIDOffset s) = Some True) \<and>
     (prefix ''primary'' (MCParticleProcess ppi) \<and> MCParticleProcess ppi \<noteq> ''primary'' \<longrightarrow>
        Process (heap s' (next_addr s)) = MCParticleProcess ppi \<and>
        fMCTPrimProcessKeepMap s' (GetTrackID track + fTrackIDOffset s) = Some False) \<and>
     (\<not> prefix ''primary'' (MCParticleProcess ppi) \<longrightarrow>
        Process (heap s' (next_addr s)) = ''primary'' \<and>
        fMCTPrimProcessKeepMap s' (GetTrackID track + fTrackIDOffset s) = Some True)"
  using assms primary_process_cases[of "MCParticleProcess ppi"]
  by (auto simp add: preUserTrackingAction_def Let_def create_particle_fields new_MCParticle_def
      split: prod.splits)

theorem primary_provenance_normalised_witness:
  "Mother (heap (example_admitted ''primary'') (next_addr example_begin)) = 0 \<and>
   Process (heap (example_admitted ''primary'') (next_addr example_begin)) = ''primary'' \<and>
   fMCTPrimProcessKeepMap (example_admitted ''primary'') 1 = Some True \<and>
   Mother (heap (example_admitted ''primaryBackground'') (next_addr example_begin)) = 0 \<and>
   Process (heap (example_admitted ''primaryBackground'') (next_addr example_begin)) =
     ''primaryBackground'' \<and>
   fMCTPrimProcessKeepMap (example_admitted ''primaryBackground'') 1 = Some False \<and>
   Mother (heap (example_admitted ''Decay'') (next_addr example_begin)) = 0 \<and>
   Process (heap (example_admitted ''Decay'') (next_addr example_begin)) = ''primary'' \<and>
   fMCTPrimProcessKeepMap (example_admitted ''Decay'') 1 = Some True"
proof -
  have id: "GetTrackID (example_primary l) + fTrackIDOffset example_begin = 1" for l
    by (simp add: example_primary_def example_begin_def beginOfEventAction_def)
  have pp: "GetPrimaryParticle (example_primary l) =
      Some (Some \<lparr>MCParticleIndex = Some 0, MCTruthIndex = 0, MCParticleProcess = l\<rparr>)" for l
    by (simp add: example_primary_def)
  show ?thesis
    using primary_provenance_normalised[OF pp[of "''primary''"],
        where cfg = example_config and s = example_begin]
      primary_provenance_normalised[OF pp[of "''primaryBackground''"],
        where cfg = example_config and s = example_begin]
      primary_provenance_normalised[OF pp[of "''Decay''"],
        where cfg = example_config and s = example_begin]
    by (auto simp add: example_admitted_def returned_Inr id)
qed

subsection \<open>The dropped list and the track-ID offset\<close>

lemma highest_loop_bounds:
  "h \<le> highest_loop xs h \<and> (\<forall>k \<in> fst ` set xs. k \<le> highest_loop xs h) \<and>
   highest_loop xs h \<in> insert h (fst ` set xs)"
proof (induction xs arbitrary: h)
  case Nil
  then show ?case by simp
next
  case (Cons x xs)
  show ?case
    using Cons[of "if fst x > h then fst x else h"] by (auto split: if_splits)
qed

lemma highest_loop_both:
  "highest_loop ys (highest_loop xs 0) = Max (insert 0 (fst ` set xs \<union> fst ` set ys))"
proof (intro Max_eqI[symmetric])
  show "finite (insert 0 (fst ` set xs \<union> fst ` set ys))" by simp
next
  fix k assume "k \<in> insert 0 (fst ` set xs \<union> fst ` set ys)"
  then show "k \<le> highest_loop ys (highest_loop xs 0)"
    using highest_loop_bounds[of 0 xs] highest_loop_bounds[of "highest_loop xs 0" ys]
    by (auto intro: order_trans)
next
  show "highest_loop ys (highest_loop xs 0) \<in> insert 0 (fst ` set xs \<union> fst ` set ys)"
    using highest_loop_bounds[of 0 xs] highest_loop_bounds[of "highest_loop xs 0" ys]
    by (metis Un_iff insert_iff)
qed

lemma Max_insert_nonneg:
  assumes "finite A" "k \<in> A" "(0::int) \<le> k"
  shows "Max (insert 0 A) = Max A"
proof -
  have "A \<noteq> {}" using assms by blast
  moreover have "0 \<le> Max A" using assms by (meson Max_ge order_trans)
  ultimately show ?thesis using assms(1) by (simp add: max_def)
qed

lemma Max_track_ids:
  assumes "k \<in> track_ids p \<union> track_ids d" "0 \<le> k"
  shows "Max (insert 0 (track_ids p \<union> track_ids d)) = Max (track_ids p \<union> track_ids d)"
proof (rule Max_insert_nonneg[OF _ assms])
  show "finite (track_ids p \<union> track_ids d)" by (simp add: track_ids_def)
qed

lemma YieldDroppedList_None:
  "fdroppedParticleList s = None \<Longrightarrow> YieldDroppedList s = Inl (cet_exception, s)"
  by (simp add: YieldDroppedList_def)

lemma YieldDroppedList_Some:
  "fdroppedParticleList s = Some d \<Longrightarrow>
   YieldDroppedList s =
     Inr (d, if entries (fParticleList s) = [] then s
             else s\<lparr>fTrackIDOffset :=
                      int_wrap (Max (insert 0 (track_ids (fParticleList s) \<union> track_ids d)) + 1)\<rparr>)"
  unfolding YieldDroppedList_def Let_def size_of_def highest_loop_both track_ids_def
  by simp

lemma int_wrap_id: "- (2 ^ 31) \<le> x \<Longrightarrow> x < 2 ^ 31 \<Longrightarrow> int_wrap x = x"
  by (simp add: int_wrap_def)

lemma int_wrap_successor:
  assumes "0 \<le> m"
  shows "m < 2 ^ 31 - 1 \<Longrightarrow> int_wrap (m + 1) = m + 1"
    and "m = 2 ^ 31 - 1 \<Longrightarrow> int_wrap (m + 1) = - (2 ^ 31)"
  using assms by (simp_all add: int_wrap_def)

lemma Max_insert_0: "finite A \<Longrightarrow> (0::int) \<le> Max (insert 0 A)"
  by (rule Max_ge) simp_all

text \<open>
  Claim C10. Without a dropped list (retention not enabled at construction)
  \<^verbatim>\<open>YieldDroppedList\<close> throws and leaves every member, so the retained list and the
  track-ID offset, as it was. With a dropped list it returns that list; when the retained
  list is empty no member changes, and otherwise only the offset changes, to the 32-bit
  sum of 1 and the highest ID of both lists, the search starting at 0. When the highest
  ID is below the largest \<^verbatim>\<open>int\<close> the offset is one more than the highest ID; at the
  largest \<^verbatim>\<open>int\<close> the sum leaves the range and the offset is the smallest \<^verbatim>\<open>int\<close>.
  When some ID of the two lists is not negative, as the track IDs of Geant4 are, the
  highest ID is the maximum ID over both lists.
\<close>

theorem YieldDroppedList_throws_or_yields:
  "(fdroppedParticleList s = None \<longrightarrow> YieldDroppedList s = Inl (cet_exception, s)) \<and>
   (\<forall>d. fdroppedParticleList s = Some d \<longrightarrow>
      (entries (fParticleList s) = [] \<longrightarrow> YieldDroppedList s = Inr (d, s)) \<and>
      (entries (fParticleList s) \<noteq> [] \<longrightarrow>
         YieldDroppedList s =
           Inr (d, s\<lparr>fTrackIDOffset :=
                       int_wrap (Max (insert 0 (track_ids (fParticleList s) \<union> track_ids d))
                                 + 1)\<rparr>) \<and>
         (Max (insert 0 (track_ids (fParticleList s) \<union> track_ids d)) < 2 ^ 31 - 1 \<longrightarrow>
            YieldDroppedList s =
              Inr (d, s\<lparr>fTrackIDOffset :=
                          Max (insert 0 (track_ids (fParticleList s) \<union> track_ids d)) + 1\<rparr>)) \<and>
         (Max (insert 0 (track_ids (fParticleList s) \<union> track_ids d)) = 2 ^ 31 - 1 \<longrightarrow>
            YieldDroppedList s = Inr (d, s\<lparr>fTrackIDOffset := - (2 ^ 31)\<rparr>)) \<and>
         ((\<exists>k \<in> track_ids (fParticleList s) \<union> track_ids d. 0 \<le> k) \<longrightarrow>
            Max (insert 0 (track_ids (fParticleList s) \<union> track_ids d)) =
            Max (track_ids (fParticleList s) \<union> track_ids d))))"
proof -
  let ?M = "\<lambda>d. Max (insert 0 (track_ids (fParticleList s) \<union> track_ids d))"
  have f: "finite (track_ids (fParticleList s) \<union> track_ids d)" for d
    by (simp add: track_ids_def)
  have m: "0 \<le> ?M d" for d by (rule Max_insert_0[OF f])
  have y: "YieldDroppedList s =
      Inr (d, s\<lparr>fTrackIDOffset := int_wrap (?M d + 1)\<rparr>)"
    if "fdroppedParticleList s = Some d" "entries (fParticleList s) \<noteq> []" for d
    using YieldDroppedList_Some[OF that(1)] that(2) by simp
  have e: "YieldDroppedList s = Inr (d, s)"
    if "fdroppedParticleList s = Some d" "entries (fParticleList s) = []" for d
    using YieldDroppedList_Some[OF that(1)] that(2) by simp
  have x: "?M d = Max (track_ids (fParticleList s) \<union> track_ids d)"
    if "\<exists>k \<in> track_ids (fParticleList s) \<union> track_ids d. 0 \<le> k" for d
    using that Max_track_ids by blast
  show ?thesis
  proof (intro conjI allI impI)
    show "YieldDroppedList s = Inl (cet_exception, s)" if "fdroppedParticleList s = None"
      using that by (rule YieldDroppedList_None)
  next
    fix d
    assume d: "fdroppedParticleList s = Some d"
    show "YieldDroppedList s = Inr (d, s)" if "entries (fParticleList s) = []"
      using d that by (rule e)
    show "YieldDroppedList s = Inr (d, s\<lparr>fTrackIDOffset := int_wrap (?M d + 1)\<rparr>)"
      if "entries (fParticleList s) \<noteq> []"
      using d that by (rule y)
    show "YieldDroppedList s = Inr (d, s\<lparr>fTrackIDOffset := ?M d + 1\<rparr>)"
      if "entries (fParticleList s) \<noteq> []" "?M d < 2 ^ 31 - 1"
      using y[OF d that(1)] int_wrap_successor(1)[OF m that(2)] by simp
    show "YieldDroppedList s = Inr (d, s\<lparr>fTrackIDOffset := - (2 ^ 31)\<rparr>)"
      if "entries (fParticleList s) \<noteq> []" "?M d = 2 ^ 31 - 1"
      using y[OF d that(1)] int_wrap_successor(2)[OF m that(2)] by simp
    show "?M d = Max (track_ids (fParticleList s) \<union> track_ids d)"
      if "entries (fParticleList s) \<noteq> []"
        "\<exists>k \<in> track_ids (fParticleList s) \<union> track_ids d. 0 \<le> k"
      using that(2) by (rule x)
  qed
qed

theorem YieldDroppedList_throws_or_yields_witness:
  "YieldDroppedList example_without_dropped_list =
     Inl (cet_exception, example_without_dropped_list) \<and>
   fst (projr (YieldDroppedList (example_admitted ''primary''))) = empty_ParticleList \<and>
   fTrackIDOffset (snd (projr (YieldDroppedList (example_admitted ''primary'')))) = 2"
proof -
  have n: "fdroppedParticleList example_without_dropped_list = None"
    by code_simp
  have d: "fdroppedParticleList (example_admitted ''primary'') = Some empty_ParticleList"
    by code_simp
  have e: "entries (fParticleList (example_admitted ''primary'')) = [(1, Some 0)]"
    by code_simp
  have t: "track_ids (fParticleList (example_admitted ''primary'')) = {1}"
    "track_ids empty_ParticleList = {}"
    by (simp_all add: track_ids_def e empty_ParticleList_def)
  show ?thesis
    using YieldDroppedList_throws_or_yields[of example_without_dropped_list]
      YieldDroppedList_throws_or_yields[of "example_admitted ''primary''"]
    by (simp add: n d e t int_wrap_def)
qed

subsection \<open>A track that ends without a process\<close>

lemma map_of_insert_entry: "map_of (insert_entry k v xs) k = Some v"
  by (induction xs) auto

lemma Archive_keeps_copy:
  "map_of (archived (Archive h a d)) (key h a) = Some (MCParticleLite_of (h a))"
  by (simp add: Archive_def map_of_insert_entry)

lemma erase_unknown: "\<not> KnownParticle (erase k pl) k"
  by (auto simp add: KnownParticle_def find_entry_def erase_def map_of_eq_None_iff)

text \<open>
  Claim C8. At the end of the track of the active particle, when no process defined the
  last step: the particle's entry is erased from the particle list (no entry with its ID
  is left, not even a nulled one); the dropped list archives a reduced copy of it exactly
  when there is a dropped list and the keep-full-trajectory flag is false, and is
  unchanged otherwise; the record gets its weight and nothing else, so neither an end
  process nor an end sample; no truth index is remembered; the active slot is cleared.
\<close>

theorem track_end_without_process:
  assumes "particle (fCurrentParticle s) = Some a"
    and "GetProcessDefinedStep (GetPostStepPoint (GetStep t)) = None"
  shows "\<not> KnownParticle (fParticleList (postUserTrackingAction SparsifyTrajectory cfg (Some t) s))
             (TrackId (heap s a)) \<and>
     \<bar>TrackId (heap s a)\<bar> \<notin>
        track_ids (fParticleList (postUserTrackingAction SparsifyTrajectory cfg (Some t) s)) \<and>
     fdroppedParticleList (postUserTrackingAction SparsifyTrajectory cfg (Some t) s) =
       (if \<not> keepFullTrajectory (fCurrentParticle s)
        then map_option (Archive ((heap s)(a := (heap s a)\<lparr>Weight := GetWeight t\<rparr>)) a)
               (fdroppedParticleList s)
        else fdroppedParticleList s) \<and>
     (\<forall>d. map_of (archived (Archive ((heap s)(a := (heap s a)\<lparr>Weight := GetWeight t\<rparr>)) a d))
            (TrackId (heap s a)) =
          Some (MCParticleLite_of ((heap s a)\<lparr>Weight := GetWeight t\<rparr>))) \<and>
     heap (postUserTrackingAction SparsifyTrajectory cfg (Some t) s) =
       (heap s)(a := (heap s a)\<lparr>Weight := GetWeight t\<rparr>) \<and>
     fPrimaryTruthMap (postUserTrackingAction SparsifyTrajectory cfg (Some t) s) =
       fPrimaryTruthMap s \<and>
     fCurrentParticle (postUserTrackingAction SparsifyTrajectory cfg (Some t) s) = clear_info"
proof -
  have p: "postUserTrackingAction SparsifyTrajectory cfg (Some t) s =
     s\<lparr>heap := (heap s)(a := (heap s a)\<lparr>Weight := GetWeight t\<rparr>),
       fParticleList := erase (TrackId (heap s a)) (fParticleList s),
       fdroppedParticleList :=
         (if \<not> keepFullTrajectory (fCurrentParticle s)
          then map_option (Archive ((heap s)(a := (heap s a)\<lparr>Weight := GetWeight t\<rparr>)) a)
                 (fdroppedParticleList s)
          else fdroppedParticleList s),
       fCurrentParticle := clear_info\<rparr>"
    using assms
    by (simp add: postUserTrackingAction_def Let_def key_def split: option.splits)
  have k: "\<bar>TrackId (heap s a)\<bar> \<notin> track_ids (erase (TrackId (heap s a)) (fParticleList s))"
    by (auto simp add: track_ids_def erase_def)
  have c: "map_of (archived (Archive ((heap s)(a := (heap s a)\<lparr>Weight := GetWeight t\<rparr>)) a d))
            (TrackId (heap s a)) =
          Some (MCParticleLite_of ((heap s a)\<lparr>Weight := GetWeight t\<rparr>))" for d
    using Archive_keeps_copy[of "(heap s)(a := (heap s a)\<lparr>Weight := GetWeight t\<rparr>)" a d]
    by (simp add: key_def)
  show ?thesis
    unfolding p using k c by (simp add: erase_unknown)
qed

theorem track_end_without_process_witness:
  "\<not> KnownParticle
       (fParticleList (postUserTrackingAction example_sparsify example_config
          (Some (example_ending None)) (example_admitted ''primaryBackground''))) 1 \<and>
   map_option (map fst \<circ> archived)
     (fdroppedParticleList (postUserTrackingAction example_sparsify example_config
        (Some (example_ending None)) (example_admitted ''primaryBackground''))) = Some [1] \<and>
   fdroppedParticleList (postUserTrackingAction example_sparsify example_config
        (Some (example_ending None)) (example_admitted ''primary'')) =
     fdroppedParticleList (example_admitted ''primary'') \<and>
   EndProcess (heap (postUserTrackingAction example_sparsify example_config
        (Some (example_ending None)) (example_admitted ''primaryBackground'')) 0) = [] \<and>
   Trajectory (heap (postUserTrackingAction example_sparsify example_config
        (Some (example_ending None)) (example_admitted ''primaryBackground'')) 0) = [] \<and>
   fCurrentParticle (postUserTrackingAction example_sparsify example_config
        (Some (example_ending None)) (example_admitted ''primaryBackground'')) = clear_info"
proof -
  have a: "particle (fCurrentParticle (example_admitted ''primaryBackground'')) = Some 0"
    "particle (fCurrentParticle (example_admitted ''primary'')) = Some 0"
    by code_simp+
  have u: "GetProcessDefinedStep (GetPostStepPoint (GetStep (example_ending None))) = None"
    by code_simp
  have k: "\<not> keepFullTrajectory (fCurrentParticle (example_admitted ''primaryBackground''))"
    "keepFullTrajectory (fCurrentParticle (example_admitted ''primary''))"
    by code_simp+
  have i: "TrackId (heap (example_admitted ''primaryBackground'') 0) = 1"
    by code_simp
  have d: "fdroppedParticleList (example_admitted ''primaryBackground'') =
      Some empty_ParticleList"
    by code_simp
  have e: "EndProcess (heap (example_admitted ''primaryBackground'') 0) = []"
    "Trajectory (heap (example_admitted ''primaryBackground'') 0) = []"
    by code_simp+
  show ?thesis
    using track_end_without_process[OF a(1) u, of example_sparsify example_config]
      track_end_without_process[OF a(2) u, of example_sparsify example_config]
    by (simp add: k i d e Archive_def empty_ParticleList_def key_def)
qed

subsection \<open>Causal order and the end of the ancestor walk\<close>

lemma GetParentage_loop_cycle:
  assumes "GetParentage_loop m p k = Some y"
  shows "m k \<noteq> Some k"
proof (rule GetParentage_loop.raw_induct[where P = "\<lambda>m p k y. m k \<noteq> Some k", OF _ assms])
  fix loop :: "(int \<rightharpoonup> int) \<Rightarrow> int \<Rightarrow> int \<Rightarrow> int option" and m p k y
  assume IH: "\<And>m p k y. loop m p k = Some y \<Longrightarrow> m k \<noteq> Some k"
    and eq: "(case m k of None \<Rightarrow> Some p | Some v \<Rightarrow> loop m v v) = Some y"
  show "m k \<noteq> Some k"
  proof
    assume "m k = Some k"
    with eq have "loop m k k = Some y" by simp
    from IH[OF this] \<open>m k = Some k\<close> show False by simp
  qed
qed

lemma GetParentage_loop_None: "m k = None \<Longrightarrow> GetParentage_loop m p k = Some p"
  by (subst GetParentage_loop.simps) simp

lemma GetParentage_loop_Some: "m k = Some v \<Longrightarrow> GetParentage_loop m p k = GetParentage_loop m v v"
  by (subst GetParentage_loop.simps) simp

lemma GetParentage_loop_causal:
  assumes "causal m"
  shows "\<exists>y. GetParentage_loop m p k = Some y"
proof (induction "nat k" arbitrary: p k rule: less_induct)
  case less
  show ?case
  proof (cases "m k")
    case None
    then show ?thesis by (simp add: GetParentage_loop_None)
  next
    case (Some v)
    then have "0 \<le> v \<and> v < k" using assms unfolding causal_def by blast
    then have "nat v < nat k" by simp
    from less[OF this] show ?thesis using Some by (simp add: GetParentage_loop_Some)
  qed
qed

lemma GetParentage_causal: "causal m \<Longrightarrow> \<exists>y. GetParentage m k = Some y"
  by (simp add: GetParentage_def GetParentage_loop_causal)

lemma causal_upd: "causal m \<Longrightarrow> 0 \<le> v \<Longrightarrow> v < k \<Longrightarrow> causal (m(k \<mapsto> v))"
  by (auto simp: causal_def)

lemma causal_empty: "causal Map.empty"
  by (simp add: causal_def)

lemma notstore_block_causal:
  assumes "causal (fParentIDMap s)" "0 \<le> pid" "pid < tid"
  shows "\<exists>g. GetParentage ((fParentIDMap s)(tid \<mapsto> pid)) tid = Some g \<and>
     notstore_block tid pid s =
       Some (s\<lparr>fParentIDMap := (fParentIDMap s)(tid \<mapsto> pid),
               fCurrentTrackID := (if \<not> KnownParticle (fParticleList s) (- g) then NoParticleId else - g),
               fTargetIDMap := (fTargetIDMap s)(tid \<mapsto>
                   (if \<not> KnownParticle (fParticleList s) (- g) then NoParticleId else - g)),
               fdroppedTracksMap := insert_dropped (fdroppedTracksMap s) g tid\<rparr>)"
proof -
  from GetParentage_causal[OF causal_upd[OF assms], of tid]
  obtain g where "GetParentage ((fParentIDMap s)(tid \<mapsto> pid)) tid = Some g" by blast
  then show ?thesis by (simp add: notstore_block_def Let_def)
qed

lemma energy_cut_block_causal:
  assumes "causal (fParentIDMap s)" "0 \<le> pid" "pid < tid"
  shows "\<exists>g g'. GetParentage (fParentIDMap s) tid = Some g \<and>
     GetParentage ((fParentIDMap s)(tid \<mapsto> pid)) tid = Some g' \<and>
     energy_cut_block tid pid s =
       Some (s\<lparr>fdroppedTracksMap := insert_dropped (fdroppedTracksMap s) g tid,
               fCurrentParticle := clear_info,
               fParentIDMap := (fParentIDMap s)(tid \<mapsto> pid),
               fCurrentTrackID := - g',
               fTargetIDMap := (fTargetIDMap s)(tid \<mapsto> - g')\<rparr>)"
proof -
  from GetParentage_causal[OF assms(1), of tid]
  obtain g where g: "GetParentage (fParentIDMap s) tid = Some g" by blast
  from GetParentage_causal[OF causal_upd[OF assms], of tid]
  obtain g' where "GetParentage ((fParentIDMap s)(tid \<mapsto> pid)) tid = Some g'" by blast
  with g show ?thesis by (simp add: energy_cut_block_def Let_def)
qed

lemma resolve_parent_causal:
  assumes "causal (fParentIDMap s)" "0 \<le> pid" "pid < tid"
  shows "\<exists>rp s'. resolve_parent tid pid s = Some (rp, s') \<and>
     (s' = s \<or> s' = s\<lparr>fParentIDMap := (fParentIDMap s)(tid \<mapsto> pid)\<rparr>)"
proof -
  from GetParentage_causal[OF causal_upd[OF assms], of pid]
  obtain g where "GetParentage ((fParentIDMap s)(tid \<mapsto> pid)) pid = Some g" by blast
  then show ?thesis by (simp add: resolve_parent_def Let_def)
qed

subsection \<open>Tracks without primary provenance\<close>

lemma NotStoredPhysics_loop_fst:
  "fst (NotStoredPhysics_loop n ps c) = (\<exists>p \<in> set ps. contains n p)"
  by (induction ps arbitrary: c) auto

lemma notstore_block_frame:
  assumes "notstore_block tid pid s = Some s'"
  shows "heap s' = heap s \<and> next_addr s' = next_addr s \<and> fParticleList s' = fParticleList s \<and>
     fdroppedParticleList s' = fdroppedParticleList s \<and> fCurrentParticle s' = fCurrentParticle s \<and>
     fMCTIndexMap s' = fMCTIndexMap s \<and> fMCTPrimProcessKeepMap s' = fMCTPrimProcessKeepMap s \<and>
     fMCTIndexToGeneratorMap s' = fMCTIndexToGeneratorMap s \<and>
     fTrackIDOffset s' = fTrackIDOffset s \<and>
     fParentIDMap s' = (fParentIDMap s)(tid \<mapsto> pid) \<and>
     fTargetIDMap s' tid = Some (fCurrentTrackID s') \<and>
     (fCurrentTrackID s' = NoParticleId \<or> KnownParticle (fParticleList s) (fCurrentTrackID s'))"
  using assms by (auto simp add: notstore_block_def Let_def split: option.splits if_splits)

lemma exclusion_filter_frame:
  assumes "exclusion_filter cfg n tid pid s = Some (ns, s')"
  shows "ns = excluded_process cfg n \<and>
     heap s' = heap s \<and> next_addr s' = next_addr s \<and> fParticleList s' = fParticleList s \<and>
     fdroppedParticleList s' = fdroppedParticleList s \<and> fCurrentParticle s' = fCurrentParticle s \<and>
     fMCTIndexMap s' = fMCTIndexMap s \<and> fMCTPrimProcessKeepMap s' = fMCTPrimProcessKeepMap s \<and>
     fMCTIndexToGeneratorMap s' = fMCTIndexToGeneratorMap s \<and>
     fTrackIDOffset s' = fTrackIDOffset s \<and>
     fParentIDMap s' = (if ns then (fParentIDMap s)(tid \<mapsto> pid) else fParentIDMap s) \<and>
     (ns \<longrightarrow> fTargetIDMap s' tid = Some (fCurrentTrackID s') \<and>
       (fCurrentTrackID s' = NoParticleId \<or> KnownParticle (fParticleList s) (fCurrentTrackID s')))"
proof (cases "excluded_process cfg n")
  case True
  then obtain c where c: "NotStoredPhysics_loop n (fNotStoredPhysics cfg) (fNotStoredCounterUMap s) = (True, c)"
    using NotStoredPhysics_loop_fst[of n "fNotStoredPhysics cfg" "fNotStoredCounterUMap s"]
    by (cases "NotStoredPhysics_loop n (fNotStoredPhysics cfg) (fNotStoredCounterUMap s)")
       (auto simp: excluded_process_def)
  from assms True c have ns: "ns" and b: "notstore_block tid pid (s\<lparr>fNotStoredCounterUMap := c\<rparr>) = Some s'"
    by (auto simp add: exclusion_filter_def excluded_process_def split: option.splits)
  show ?thesis using notstore_block_frame[OF b] ns True by simp
next
  case False
  show ?thesis
  proof (cases "fKeepEMShowerDaughters cfg")
    case True
    with assms have "ns = False \<and> s' = s" by (simp add: exclusion_filter_def)
    then show ?thesis using False by simp
  next
    case keep: False
    obtain b c where c: "NotStoredPhysics_loop n (fNotStoredPhysics cfg) (fNotStoredCounterUMap s) = (b, c)"
      by (cases "NotStoredPhysics_loop n (fNotStoredPhysics cfg) (fNotStoredCounterUMap s)")
    have "\<not> b"
      using NotStoredPhysics_loop_fst[of n "fNotStoredPhysics cfg" "fNotStoredCounterUMap s"]
        False keep c by (simp add: excluded_process_def)
    with assms keep c have "ns = False \<and> s' = s\<lparr>fNotStoredCounterUMap := c\<rparr>"
      by (simp add: exclusion_filter_def)
    then show ?thesis using False by simp
  qed
qed

lemma energy_cut_block_frame:
  assumes "energy_cut_block tid pid s = Some s'"
  shows "heap s' = heap s \<and> next_addr s' = next_addr s \<and> fParticleList s' = fParticleList s \<and>
     fdroppedParticleList s' = fdroppedParticleList s \<and> fCurrentParticle s' = clear_info \<and>
     fMCTIndexMap s' = fMCTIndexMap s \<and> fMCTPrimProcessKeepMap s' = fMCTPrimProcessKeepMap s \<and>
     fMCTIndexToGeneratorMap s' = fMCTIndexToGeneratorMap s \<and>
     fTrackIDOffset s' = fTrackIDOffset s \<and>
     fParentIDMap s' = (fParentIDMap s)(tid \<mapsto> pid)"
  using assms by (auto simp add: energy_cut_block_def Let_def split: option.splits)

lemma resolve_parent_frame:
  assumes "resolve_parent tid pid s = Some (rp, s')"
  shows "heap s' = heap s \<and> next_addr s' = next_addr s \<and> fParticleList s' = fParticleList s \<and>
     fdroppedParticleList s' = fdroppedParticleList s \<and> fCurrentParticle s' = fCurrentParticle s \<and>
     fMCTIndexMap s' = fMCTIndexMap s \<and> fMCTPrimProcessKeepMap s' = fMCTPrimProcessKeepMap s \<and>
     fMCTIndexToGeneratorMap s' = fMCTIndexToGeneratorMap s \<and>
     fTrackIDOffset s' = fTrackIDOffset s \<and>
     fTargetIDMap s' = fTargetIDMap s \<and> fCurrentTrackID s' = fCurrentTrackID s \<and>
     (fParentIDMap s' = fParentIDMap s \<or> fParentIDMap s' = (fParentIDMap s)(tid \<mapsto> pid))"
  using assms by (auto simp add: resolve_parent_def Let_def split: option.splits if_splits)

lemma exclusion_filter_causal:
  assumes "causal (fParentIDMap s)" "0 \<le> pid" "pid < tid"
  shows "\<exists>ns s'. exclusion_filter cfg n tid pid s = Some (ns, s')"
proof -
  obtain b c where c: "NotStoredPhysics_loop n (fNotStoredPhysics cfg) (fNotStoredCounterUMap s) = (b, c)"
    by (cases "NotStoredPhysics_loop n (fNotStoredPhysics cfg) (fNotStoredCounterUMap s)")
  have "causal (fParentIDMap (s\<lparr>fNotStoredCounterUMap := c\<rparr>))" using assms(1) by simp
  from notstore_block_causal[OF this assms(2,3)]
  obtain s' where "notstore_block tid pid (s\<lparr>fNotStoredCounterUMap := c\<rparr>) = Some s'" by blast
  then show ?thesis using c by (auto simp add: exclusion_filter_def)
qed

lemma not_primary_causal:
  assumes "causal (fParentIDMap s)" "0 \<le> pid" "pid < tid"
  shows "\<exists>r. not_primary cfg track tid pdg pid s = Some r \<and>
     causal (fParentIDMap (case r of Inl (e, s') \<Rightarrow> s' | Inr (x, s') \<Rightarrow> s'))"
proof -
  from exclusion_filter_causal[OF assms] obtain ns s1 where
    e: "exclusion_filter cfg (GetCreatorProcessName track) tid pid s = Some (ns, s1)" by blast
  have c1: "causal (fParentIDMap s1)"
    using exclusion_filter_frame[OF e] assms by (simp add: causal_upd)
  show ?thesis
  proof (cases "GetKineticEnergy track < fenergyCut cfg \<and> pdg \<noteq> 0")
    case True
    from energy_cut_block_causal[OF c1 assms(2,3)] obtain s2 where
      c: "energy_cut_block tid pid s1 = Some s2" by blast
    have "causal (fParentIDMap s2)"
      using energy_cut_block_frame[OF c] c1 assms by (simp add: causal_upd)
    then show ?thesis using True e c by (simp add: not_primary_def)
  next
    case False
    from resolve_parent_causal[OF c1 assms(2,3)] obtain rp s2 where
      p: "resolve_parent tid pid s1 = Some (rp, s2)" by blast
    have "causal (fParentIDMap s2)"
      using resolve_parent_frame[OF p] c1 assms by (auto simp add: causal_upd)
    then show ?thesis using False e p
      by (auto simp add: not_primary_def Let_def split: option.splits)
  qed
qed

lemma preUserTrackingAction_causal:
  assumes "causal (fParentIDMap s)" "0 \<le> GetParentID track + fTrackIDOffset s"
    "GetParentID track < GetTrackID track"
  shows "\<exists>r. preUserTrackingAction cfg track s = Some r \<and>
     causal (fParentIDMap (members_after r))"
proof (cases "GetPrimaryParticle track")
  case (Some pp)
  then show ?thesis using assms(1)
    by (auto simp add: preUserTrackingAction_def Let_def members_after_def
        create_particle_fields split: option.splits prod.splits)
next
  case None
  have c: "causal (fParentIDMap (s\<lparr>fCurrentTrackID := GetTrackID track + fTrackIDOffset s,
       fTargetIDMap := (fTargetIDMap s)(GetTrackID track + fTrackIDOffset s \<mapsto>
                                         GetTrackID track + fTrackIDOffset s)\<rparr>))"
    using assms(1) by simp
  have l: "GetParentID track + fTrackIDOffset s < GetTrackID track + fTrackIDOffset s"
    using assms(3) by simp
  from not_primary_causal[OF c assms(2) l, of cfg track "GetPDGEncoding track"]
  obtain r where r: "not_primary cfg track (GetTrackID track + fTrackIDOffset s)
        (GetPDGEncoding track) (GetParentID track + fTrackIDOffset s)
        (s\<lparr>fCurrentTrackID := GetTrackID track + fTrackIDOffset s,
           fTargetIDMap := (fTargetIDMap s)(GetTrackID track + fTrackIDOffset s \<mapsto>
                                             GetTrackID track + fTrackIDOffset s)\<rparr>) = Some r"
    and cr: "causal (fParentIDMap (case r of Inl (e, s') \<Rightarrow> s' | Inr (x, s') \<Rightarrow> s'))"
    by blast
  show ?thesis
  proof (cases r)
    case (Inl es)
    then show ?thesis using None r cr
      by (cases es) (simp add: preUserTrackingAction_def Let_def members_after_def)
  next
    case (Inr xs)
    obtain x s' where xs: "xs = (x, s')" by (cases xs)
    show ?thesis
    proof (cases x)
      case None': None
      then show ?thesis using None r cr Inr xs
        by (simp add: preUserTrackingAction_def Let_def members_after_def)
    next
      case (Some y)
      obtain pn rp i isp ns where "y = (pn, rp, i, isp, ns)" by (cases y)
      then show ?thesis using None r cr Inr xs Some
        by (simp add: preUserTrackingAction_def Let_def members_after_def
            create_particle_fields)
    qed
  qed
qed

lemma KnownParticle_minus: "KnownParticle pl (- g) = KnownParticle pl g"
  by (simp add: KnownParticle_def find_entry_def)

lemma resolved_parent_cong:
  assumes "fParticleList s' = fParticleList s" "fdroppedParticleList s' = fdroppedParticleList s"
    "(fParentIDMap s')(tid \<mapsto> pid) = (fParentIDMap s)(tid \<mapsto> pid)"
  shows "resolved_parent s' tid pid = resolved_parent s tid pid"
  using assms
  by (auto simp add: resolved_parent_def resolve_parent_def known_dropped_def Let_def
      split: option.splits)

lemma notstore_block_identity:
  assumes "notstore_block tid pid s = Some s'"
  shows "fCurrentTrackID s' = NoParticleId \<or>
     (\<exists>g. GetParentage ((fParentIDMap s)(tid \<mapsto> pid)) tid = Some g \<and>
          fCurrentTrackID s' = - g \<and> KnownParticle (fParticleList s) g)"
  using assms
  by (auto simp add: notstore_block_def Let_def KnownParticle_minus split: option.splits if_splits)

lemma exclusion_filter_identity:
  assumes "exclusion_filter cfg n tid pid s = Some (True, s')"
  shows "fCurrentTrackID s' = NoParticleId \<or>
     (\<exists>g. GetParentage ((fParentIDMap s)(tid \<mapsto> pid)) tid = Some g \<and>
          fCurrentTrackID s' = - g \<and> KnownParticle (fParticleList s) g)"
proof -
  from assms obtain c where "notstore_block tid pid (s\<lparr>fNotStoredCounterUMap := c\<rparr>) = Some s'"
    by (auto simp add: exclusion_filter_def split: if_splits prod.splits option.splits)
  from notstore_block_identity[OF this] show ?thesis by simp
qed

text \<open>What a track without primary provenance comes back with when the energy cut lets it pass.\<close>

lemma not_primary_admit:
  assumes r: "not_primary cfg track tid pdg pid s = Some r"
    and nc: "\<not> (GetKineticEnergy track < fenergyCut cfg \<and> pdg \<noteq> 0)"
  obtains rp s' where
    "resolved_parent s tid pid = Some rp"
    and "heap s' = heap s" and "next_addr s' = next_addr s"
    and "fParticleList s' = fParticleList s"
    and "fdroppedParticleList s' = fdroppedParticleList s"
    and "fTrackIDOffset s' = fTrackIDOffset s"
    and "fMCTIndexMap s' = fMCTIndexMap s"
    and "fMCTIndexToGeneratorMap s' = fMCTIndexToGeneratorMap s"
    and "excluded_process cfg (GetCreatorProcessName track) \<longrightarrow>
        fTargetIDMap s' tid = Some (fCurrentTrackID s') \<and>
        (fCurrentTrackID s' = NoParticleId \<or>
         (\<exists>g. GetParentage ((fParentIDMap s)(tid \<mapsto> pid)) tid = Some g \<and>
              fCurrentTrackID s' = - g \<and> KnownParticle (fParticleList s) g))"
    and "fMCTIndexMap s rp = None \<longrightarrow> r = Inl (LogicError, s')"
    and "\<forall>i. fMCTIndexMap s rp = Some i \<longrightarrow>
          r = Inr (Some (GetCreatorProcessName track, rp, i,
                         fMCTPrimProcessKeepMap s rp = Some True,
                         excluded_process cfg (GetCreatorProcessName track)), s')"
proof -
  from r obtain ns s1 where
    e: "exclusion_filter cfg (GetCreatorProcessName track) tid pid s = Some (ns, s1)"
    by (auto simp add: not_primary_def Let_def split: option.splits)
  note f = exclusion_filter_frame[OF e]
  from r e nc obtain rp s2 where p: "resolve_parent tid pid s1 = Some (rp, s2)"
    by (auto simp add: not_primary_def Let_def split: option.splits)
  note g = resolve_parent_frame[OF p]
  have "resolved_parent s1 tid pid = resolved_parent s tid pid"
    using f by (intro resolved_parent_cong) auto
  then have rp: "resolved_parent s tid pid = Some rp"
    using p by (simp add: resolved_parent_def)
  have id: "excluded_process cfg (GetCreatorProcessName track) \<longrightarrow>
        fTargetIDMap s2 tid = Some (fCurrentTrackID s2) \<and>
        (fCurrentTrackID s2 = NoParticleId \<or>
         (\<exists>g. GetParentage ((fParentIDMap s)(tid \<mapsto> pid)) tid = Some g \<and>
              fCurrentTrackID s2 = - g \<and> KnownParticle (fParticleList s) g))"
  proof
    assume "excluded_process cfg (GetCreatorProcessName track)"
    with f have ns by simp
    with e exclusion_filter_identity[of cfg _ tid pid s s1] f g
    show "fTargetIDMap s2 tid = Some (fCurrentTrackID s2) \<and>
        (fCurrentTrackID s2 = NoParticleId \<or>
         (\<exists>g. GetParentage ((fParentIDMap s)(tid \<mapsto> pid)) tid = Some g \<and>
              fCurrentTrackID s2 = - g \<and> KnownParticle (fParticleList s) g))"
      by simp
  qed
  have fr: "heap s2 = heap s" "next_addr s2 = next_addr s" "fParticleList s2 = fParticleList s"
    "fdroppedParticleList s2 = fdroppedParticleList s" "fTrackIDOffset s2 = fTrackIDOffset s"
    "fMCTIndexMap s2 = fMCTIndexMap s" "fMCTIndexToGeneratorMap s2 = fMCTIndexToGeneratorMap s"
    "fMCTPrimProcessKeepMap s2 = fMCTPrimProcessKeepMap s" "ns = excluded_process cfg (GetCreatorProcessName track)"
    using f g by simp_all
  have out: "not_primary cfg track tid pdg pid s =
     (case fMCTIndexMap s2 rp of
        None \<Rightarrow> Some (Inl (LogicError, s2))
      | Some i \<Rightarrow>
          (case fMCTPrimProcessKeepMap s2 rp of
             None \<Rightarrow> Some (Inr (Some (GetCreatorProcessName track, rp, i, False, ns),
                          s2\<lparr>fMCTPrimProcessKeepMap := (fMCTPrimProcessKeepMap s2)(rp \<mapsto> False)\<rparr>))
           | Some b \<Rightarrow> Some (Inr (Some (GetCreatorProcessName track, rp, i, b, ns), s2))))"
    using e p nc by (auto simp add: not_primary_def Let_def)
  show ?thesis
  proof (cases "fMCTIndexMap s rp")
    case None
    show ?thesis
      by (rule that[of rp s2]) (use rp fr id None out r in simp_all)
  next
    case (Some i)
    show ?thesis
    proof (cases "fMCTPrimProcessKeepMap s rp")
      case None
      show ?thesis
        by (rule that[of rp "s2\<lparr>fMCTPrimProcessKeepMap :=
                                  (fMCTPrimProcessKeepMap s2)(rp \<mapsto> False)\<rparr>"])
           (use rp fr id None Some out r in simp_all)
    next
      case keep: (Some b)
      show ?thesis
        by (rule that[of rp s2]) (use rp fr id keep Some out r in simp_all)
    qed
  qed
qed

lemma not_primary_cut:
  assumes r: "not_primary cfg track tid pdg pid s = Some r"
    and c: "GetKineticEnergy track < fenergyCut cfg \<and> pdg \<noteq> 0"
  shows "\<exists>s'. r = Inr (None, s') \<and> fCurrentParticle s' = clear_info \<and>
     heap s' = heap s \<and> next_addr s' = next_addr s \<and> fParticleList s' = fParticleList s \<and>
     fdroppedParticleList s' = fdroppedParticleList s \<and> fTrackIDOffset s' = fTrackIDOffset s"
proof -
  from r obtain ns s1 where
    e: "exclusion_filter cfg (GetCreatorProcessName track) tid pid s = Some (ns, s1)"
    by (auto simp add: not_primary_def Let_def split: option.splits)
  from r e c obtain s2 where b: "energy_cut_block tid pid s1 = Some s2" and "r = Inr (None, s2)"
    by (auto simp add: not_primary_def Let_def split: option.splits)
  then show ?thesis using energy_cut_block_frame[OF b] exclusion_filter_frame[OF e] by simp
qed

lemma preUserTrackingAction_not_primary:
  assumes "GetPrimaryParticle track = None"
  shows "preUserTrackingAction cfg track s =
     (case not_primary cfg track (GetTrackID track + fTrackIDOffset s) (GetPDGEncoding track)
             (GetParentID track + fTrackIDOffset s)
             (s\<lparr>fCurrentTrackID := GetTrackID track + fTrackIDOffset s,
                fTargetIDMap := (fTargetIDMap s)(GetTrackID track + fTrackIDOffset s \<mapsto>
                                                  GetTrackID track + fTrackIDOffset s)\<rparr>) of
        None \<Rightarrow> None
      | Some (Inl e) \<Rightarrow> Some (Inl e)
      | Some (Inr (None, s2)) \<Rightarrow> Some (Inr s2)
      | Some (Inr (Some (pn, rp, i, isp, ns), s2)) \<Rightarrow>
          Some (Inr (create_particle cfg track (GetTrackID track + fTrackIDOffset s)
                       (GetPDGEncoding track) pn rp None i isp ns s2)))"
  using assms by (simp add: preUserTrackingAction_def Let_def)

text \<open>The same for the callback, in terms of the members it starts from.\<close>

lemma preUserTrackingAction_admit:
  assumes np: "GetPrimaryParticle track = None"
    and r: "preUserTrackingAction cfg track s = Some r"
    and nc: "\<not> (GetKineticEnergy track < fenergyCut cfg \<and> GetPDGEncoding track \<noteq> 0)"
  obtains rp s' where
    "resolved_parent s (GetTrackID track + fTrackIDOffset s)
       (GetParentID track + fTrackIDOffset s) = Some rp"
    and "heap s' = heap s" and "next_addr s' = next_addr s"
    and "fParticleList s' = fParticleList s"
    and "fdroppedParticleList s' = fdroppedParticleList s"
    and "fTrackIDOffset s' = fTrackIDOffset s"
    and "fMCTIndexMap s' = fMCTIndexMap s"
    and "fMCTIndexToGeneratorMap s' = fMCTIndexToGeneratorMap s"
    and "excluded_process cfg (GetCreatorProcessName track) \<longrightarrow>
        fTargetIDMap s' (GetTrackID track + fTrackIDOffset s) = Some (fCurrentTrackID s') \<and>
        (fCurrentTrackID s' = NoParticleId \<or>
         (\<exists>g. GetParentage ((fParentIDMap s)(GetTrackID track + fTrackIDOffset s \<mapsto>
                                               GetParentID track + fTrackIDOffset s))
                 (GetTrackID track + fTrackIDOffset s) = Some g \<and>
              fCurrentTrackID s' = - g \<and> KnownParticle (fParticleList s) g))"
    and "fMCTIndexMap s rp = None \<longrightarrow> r = Inl (LogicError, s')"
    and "\<forall>i. fMCTIndexMap s rp = Some i \<longrightarrow>
          r = Inr (create_particle cfg track (GetTrackID track + fTrackIDOffset s)
                     (GetPDGEncoding track) (GetCreatorProcessName track) rp None i
                     (fMCTPrimProcessKeepMap s rp = Some True)
                     (excluded_process cfg (GetCreatorProcessName track)) s')"
proof -
  let ?tid = "GetTrackID track + fTrackIDOffset s"
  let ?pid = "GetParentID track + fTrackIDOffset s"
  let ?s1 = "s\<lparr>fCurrentTrackID := ?tid, fTargetIDMap := (fTargetIDMap s)(?tid \<mapsto> ?tid)\<rparr>"
  from r obtain r0 where r0: "not_primary cfg track ?tid (GetPDGEncoding track) ?pid ?s1 = Some r0"
    unfolding preUserTrackingAction_not_primary[OF np] by (cases "not_primary cfg track ?tid (GetPDGEncoding track) ?pid ?s1") simp_all
  have rp1: "resolved_parent ?s1 ?tid ?pid = resolved_parent s ?tid ?pid"
    by (intro resolved_parent_cong) simp_all
  show ?thesis
  proof (rule not_primary_admit[OF r0 nc])
    fix rp s'
    assume a: "resolved_parent ?s1 ?tid ?pid = Some rp"
      "heap s' = heap ?s1" "next_addr s' = next_addr ?s1" "fParticleList s' = fParticleList ?s1"
      "fdroppedParticleList s' = fdroppedParticleList ?s1" "fTrackIDOffset s' = fTrackIDOffset ?s1"
      "fMCTIndexMap s' = fMCTIndexMap ?s1"
      "fMCTIndexToGeneratorMap s' = fMCTIndexToGeneratorMap ?s1"
      and b: "excluded_process cfg (GetCreatorProcessName track) \<longrightarrow>
        fTargetIDMap s' ?tid = Some (fCurrentTrackID s') \<and>
        (fCurrentTrackID s' = NoParticleId \<or>
         (\<exists>g. GetParentage ((fParentIDMap ?s1)(?tid \<mapsto> ?pid)) ?tid = Some g \<and>
              fCurrentTrackID s' = - g \<and> KnownParticle (fParticleList ?s1) g))"
      and c: "fMCTIndexMap ?s1 rp = None \<longrightarrow> r0 = Inl (LogicError, s')"
      and d: "\<forall>i. fMCTIndexMap ?s1 rp = Some i \<longrightarrow>
          r0 = Inr (Some (GetCreatorProcessName track, rp, i,
                         fMCTPrimProcessKeepMap ?s1 rp = Some True,
                         excluded_process cfg (GetCreatorProcessName track)), s')"
    have e1: "fMCTIndexMap s rp = None \<longrightarrow> r = Inl (LogicError, s')"
    proof
      assume "fMCTIndexMap s rp = None"
      with c have "r0 = Inl (LogicError, s')" by simp
      then show "r = Inl (LogicError, s')"
        using r r0 unfolding preUserTrackingAction_not_primary[OF np] by simp
    qed
    have e2: "\<forall>i. fMCTIndexMap s rp = Some i \<longrightarrow>
          r = Inr (create_particle cfg track ?tid (GetPDGEncoding track)
                     (GetCreatorProcessName track) rp None i
                     (fMCTPrimProcessKeepMap s rp = Some True)
                     (excluded_process cfg (GetCreatorProcessName track)) s')"
    proof (intro allI impI)
      fix i assume "fMCTIndexMap s rp = Some i"
      with d have "r0 = Inr (Some (GetCreatorProcessName track, rp, i,
                         fMCTPrimProcessKeepMap s rp = Some True,
                         excluded_process cfg (GetCreatorProcessName track)), s')"
        by simp
      then show "r = Inr (create_particle cfg track ?tid (GetPDGEncoding track)
                     (GetCreatorProcessName track) rp None i
                     (fMCTPrimProcessKeepMap s rp = Some True)
                     (excluded_process cfg (GetCreatorProcessName track)) s')"
        using r r0 unfolding preUserTrackingAction_not_primary[OF np] by simp
    qed
    show ?thesis
      by (rule that[of rp s']) (use a b rp1 e1 e2 in simp_all)
  qed
qed

lemma no_active_particle:
  assumes "fCurrentParticle s = clear_info"
  shows "userSteppingAction cfg st s = (st, s)"
    and "postUserTrackingAction SparsifyTrajectory cfg aTrack s = s"
  using assms by (simp_all add: userSteppingAction_def postUserTrackingAction_def clear_info_def)

lemma preUserTrackingAction_cut:
  assumes np: "GetPrimaryParticle track = None"
    and c: "energy_cut cfg track"
    and p: "preUserTrackingAction cfg track s = Some r"
  shows "\<exists>s'. r = Inr s' \<and> fParticleList s' = fParticleList s \<and>
            fdroppedParticleList s' = fdroppedParticleList s \<and>
            heap s' = heap s \<and> next_addr s' = next_addr s \<and>
            fTrackIDOffset s' = fTrackIDOffset s \<and>
            fCurrentParticle s' = clear_info"
proof -
  from p obtain r0 where r0: "not_primary cfg track (GetTrackID track + fTrackIDOffset s)
        (GetPDGEncoding track) (GetParentID track + fTrackIDOffset s)
        (s\<lparr>fCurrentTrackID := GetTrackID track + fTrackIDOffset s,
           fTargetIDMap := (fTargetIDMap s)(GetTrackID track + fTrackIDOffset s \<mapsto>
                                             GetTrackID track + fTrackIDOffset s)\<rparr>) = Some r0"
    unfolding preUserTrackingAction_not_primary[OF np] by (auto split: option.splits)
  from not_primary_cut[OF r0] c obtain s' where s': "r0 = Inr (None, s')"
    "fCurrentParticle s' = clear_info" "heap s' = heap s" "next_addr s' = next_addr s"
    "fParticleList s' = fParticleList s" "fdroppedParticleList s' = fdroppedParticleList s"
    "fTrackIDOffset s' = fTrackIDOffset s"
    by (auto simp add: energy_cut_def)
  have "r = Inr s'"
    using p r0 s'(1) unfolding preUserTrackingAction_not_primary[OF np] by simp
  then show ?thesis using s' by simp
qed

lemma preUserTrackingAction_pass:
  assumes np: "GetPrimaryParticle track = None"
    and nc: "\<not> (GetKineticEnergy track < fenergyCut cfg \<and> GetPDGEncoding track \<noteq> 0)"
    and p: "preUserTrackingAction cfg track s = Some (Inr s')"
  shows "particle (fCurrentParticle s') = Some (next_addr s) \<and>
         TrackId (heap s' (next_addr s)) = GetTrackID track + fTrackIDOffset s \<and>
         (GetProperTime track = 0 \<and> \<not> excluded_process cfg (GetCreatorProcessName track) \<longrightarrow>
            map_of (entries (fParticleList s')) (GetTrackID track + fTrackIDOffset s) =
              Some (Some (next_addr s)))"
proof (rule preUserTrackingAction_admit[OF np p nc])
  fix rp s2
  assume f: "heap s2 = heap s" "next_addr s2 = next_addr s" "fParticleList s2 = fParticleList s"
    and n: "fMCTIndexMap s rp = None \<longrightarrow> Inr s' = Inl (LogicError, s2)"
    and c: "\<forall>i. fMCTIndexMap s rp = Some i \<longrightarrow>
          Inr s' = Inr (create_particle cfg track (GetTrackID track + fTrackIDOffset s)
                     (GetPDGEncoding track) (GetCreatorProcessName track) rp None i
                     (fMCTPrimProcessKeepMap s rp = Some True)
                     (excluded_process cfg (GetCreatorProcessName track)) s2)"
  from n c obtain i where
    "s' = create_particle cfg track (GetTrackID track + fTrackIDOffset s) (GetPDGEncoding track)
       (GetCreatorProcessName track) rp None i (fMCTPrimProcessKeepMap s rp = Some True)
       (excluded_process cfg (GetCreatorProcessName track)) s2"
    by (cases "fMCTIndexMap s rp") auto
  then show ?thesis
    using f by (simp add: create_particle_fields new_MCParticle_def map_of_insert_entry)
qed

text \<open>The stepping and track-end callbacks leave the parent-substitution map alone.\<close>

lemma unchanged_parents:
  "fParentIDMap (snd (userSteppingAction cfg st s)) = fParentIDMap s"
  "fParentIDMap (postUserTrackingAction SparsifyTrajectory cfg aTrack s) = fParentIDMap s"
  by (simp_all add: userSteppingAction_def postUserTrackingAction_def store_truth_def Let_def
      split: option.splits)

subsection \<open>The example event\<close>

lemma causal_example_begin: "causal (fParentIDMap example_begin)"
  by (simp add: example_begin_def beginOfEventAction_def causal_empty)

lemma admitted_primary:
  "preUserTrackingAction example_config (example_primary ''primary'') example_begin =
     Some (Inr (example_admitted ''primary''))"
proof -
  have "returns (preUserTrackingAction example_config (example_primary ''primary'')
                   example_begin)"
    by code_simp
  then show ?thesis unfolding example_admitted_def by (rule returnsD)
qed

lemma causal_example_admitted: "causal (fParentIDMap (example_admitted ''primary''))"
proof -
  have "0 \<le> GetParentID (example_primary ''primary'') + fTrackIDOffset example_begin"
    "GetParentID (example_primary ''primary'') < GetTrackID (example_primary ''primary'')"
    by (simp_all add: example_primary_def example_begin_def beginOfEventAction_def)
  from preUserTrackingAction_causal[OF causal_example_begin this, of example_config]
  show ?thesis by (simp add: admitted_primary members_after_def)
qed

lemma admitted_secondary:
  assumes "returns (preUserTrackingAction example_config (example_secondary process energy)
                      (example_admitted ''primary''))"
  shows "preUserTrackingAction example_config (example_secondary process energy)
           (example_admitted ''primary'') =
         Some (Inr (example_admitted_secondary process energy))"
  unfolding example_admitted_secondary_def using assms by (rule returnsD)

lemma thrown_Inl: "thrown (Some (Inl (e, s))) = Some e"
  by (simp add: thrown_def)

subsection \<open>The keep-full-trajectory flag\<close>

lemma create_particle_chain:
  assumes "s' = create_particle cfg track tid pdg pn pid pidx mcti isp ns s0"
    and "fMCTIndexToGeneratorMap s0 = fMCTIndexToGeneratorMap s"
  shows "fMCTIndexMap s' tid = Some mcti \<and>
     keepFullTrajectory (fCurrentParticle s') =
       keepFullTrajectory_chain (fstoreTrajectories cfg) (generator_storable s mcti)
         (fkeepOnlyPrimaryFullTraj cfg) (from_primary_process s' tid) \<and>
     from_primary_process s' tid = isp"
  unfolding assms(1) using assms(2)
  by (auto simp add: create_particle_fields keepFullTrajectory_chain_def
      generator_storable_def from_primary_process_def split: option.splits)

text \<open>
  Claim C6. For every particle record that \<^verbatim>\<open>preUserTrackingAction\<close> creates, the
  keep-full-trajectory flag of the record is the result of the ordered decision chain:
  false if trajectory storage is disabled; else false if the generator of the record's
  truth record is not marked storable in the Generator Keep-Map as it is before the
  call; else true if the only-primary policy is disabled; else true exactly when the
  record's from-primary-process flag is set. The truth record and the flag are those of
  the primary's provenance, or those that the members before the call hold for the
  resolved parent.
\<close>

theorem keepFullTrajectory_is_chain:
  assumes "preUserTrackingAction cfg track s = Some (Inr s')"
    and "hasParticle (fCurrentParticle s')"
  shows "\<exists>mcti.
     fMCTIndexMap s' (GetTrackID track + fTrackIDOffset s) = Some mcti \<and>
     keepFullTrajectory (fCurrentParticle s') =
       keepFullTrajectory_chain (fstoreTrajectories cfg) (generator_storable s mcti)
         (fkeepOnlyPrimaryFullTraj cfg)
         (from_primary_process s' (GetTrackID track + fTrackIDOffset s)) \<and>
     (\<forall>ppi. GetPrimaryParticle track = Some (Some ppi) \<longrightarrow>
        mcti = MCTruthIndex ppi \<and>
        from_primary_process s' (GetTrackID track + fTrackIDOffset s) =
          snd (primary_process (MCParticleProcess ppi))) \<and>
     (GetPrimaryParticle track = Some None \<longrightarrow>
        mcti = 0 \<and> \<not> from_primary_process s' (GetTrackID track + fTrackIDOffset s)) \<and>
     (GetPrimaryParticle track = None \<longrightarrow>
        (\<exists>rp. resolved_parent s (GetTrackID track + fTrackIDOffset s)
                (GetParentID track + fTrackIDOffset s) = Some rp \<and>
              fMCTIndexMap s rp = Some mcti \<and>
              from_primary_process s' (GetTrackID track + fTrackIDOffset s) =
                (fMCTPrimProcessKeepMap s rp = Some True)))"
proof (cases "GetPrimaryParticle track")
  case (Some pp)
  define s1 where "s1 = s\<lparr>fCurrentTrackID := GetTrackID track + fTrackIDOffset s,
       fTargetIDMap := (fTargetIDMap s)(GetTrackID track + fTrackIDOffset s \<mapsto>
                                         GetTrackID track + fTrackIDOffset s)\<rparr>"
  have g: "fMCTIndexToGeneratorMap s1 = fMCTIndexToGeneratorMap s" by (simp add: s1_def)
  show ?thesis
  proof (cases pp)
    case None
    with assms(1) Some have "s' = create_particle cfg track (GetTrackID track + fTrackIDOffset s)
            (GetPDGEncoding track) ''unknown'' (GetParentID track + fTrackIDOffset s)
            None 0 False False s1"
      by (simp add: preUserTrackingAction_def Let_def s1_def)
    from create_particle_chain[OF this g] Some None show ?thesis by simp
  next
    case (Some ppi)
    obtain pn isp where pp: "primary_process (MCParticleProcess ppi) = (pn, isp)"
      by (cases "primary_process (MCParticleProcess ppi)")
    with assms(1) Some \<open>GetPrimaryParticle track = Some pp\<close>
    have "s' = create_particle cfg track (GetTrackID track + fTrackIDOffset s)
            (GetPDGEncoding track) pn 0 (MCParticleIndex ppi) (MCTruthIndex ppi) isp False s1"
      by (simp add: preUserTrackingAction_def Let_def s1_def)
    from create_particle_chain[OF this g] Some \<open>GetPrimaryParticle track = Some pp\<close> pp
    show ?thesis by simp
  qed
next
  case None
  have nc: "\<not> (GetKineticEnergy track < fenergyCut cfg \<and> GetPDGEncoding track \<noteq> 0)"
  proof
    assume "GetKineticEnergy track < fenergyCut cfg \<and> GetPDGEncoding track \<noteq> 0"
    then have "energy_cut cfg track" by (simp add: energy_cut_def)
    from preUserTrackingAction_cut[OF None this assms(1)] assms(2) show False
      by (simp add: hasParticle_def clear_info_def)
  qed
  show ?thesis
  proof (rule preUserTrackingAction_admit[OF None assms(1) nc])
    fix rp s2
    assume rp: "resolved_parent s (GetTrackID track + fTrackIDOffset s)
                  (GetParentID track + fTrackIDOffset s) = Some rp"
      and g: "fMCTIndexToGeneratorMap s2 = fMCTIndexToGeneratorMap s"
      and n: "fMCTIndexMap s rp = None \<longrightarrow> Inr s' = Inl (LogicError, s2)"
      and c: "\<forall>i. fMCTIndexMap s rp = Some i \<longrightarrow>
          Inr s' = Inr (create_particle cfg track (GetTrackID track + fTrackIDOffset s)
                     (GetPDGEncoding track) (GetCreatorProcessName track) rp None i
                     (fMCTPrimProcessKeepMap s rp = Some True)
                     (excluded_process cfg (GetCreatorProcessName track)) s2)"
    from n obtain i where i: "fMCTIndexMap s rp = Some i" by (cases "fMCTIndexMap s rp") auto
    with c have "s' = create_particle cfg track (GetTrackID track + fTrackIDOffset s)
                     (GetPDGEncoding track) (GetCreatorProcessName track) rp None i
                     (fMCTPrimProcessKeepMap s rp = Some True)
                     (excluded_process cfg (GetCreatorProcessName track)) s2" by simp
    from create_particle_chain[OF this g] None rp i show ?thesis by simp
  qed
qed

theorem keepFullTrajectory_is_chain_witness:
  "preUserTrackingAction example_config (example_primary ''primary'') example_begin =
     Some (Inr (example_admitted ''primary'')) \<and>
   hasParticle (fCurrentParticle (example_admitted ''primary'')) \<and>
   fstoreTrajectories example_config \<and>
   fkeepOnlyPrimaryFullTraj example_config \<and>
   generator_storable example_begin 0 \<and>
   fMCTIndexMap (example_admitted ''primary'') 1 = Some 0 \<and>
   from_primary_process (example_admitted ''primary'') 1 \<and>
   keepFullTrajectory (fCurrentParticle (example_admitted ''primary'')) \<and>
   preUserTrackingAction example_config (example_primary ''primaryBackground'') example_begin =
     Some (Inr (example_admitted ''primaryBackground'')) \<and>
   hasParticle (fCurrentParticle (example_admitted ''primaryBackground'')) \<and>
   fMCTIndexMap (example_admitted ''primaryBackground'') 1 = Some 0 \<and>
   \<not> from_primary_process (example_admitted ''primaryBackground'') 1 \<and>
   \<not> keepFullTrajectory (fCurrentParticle (example_admitted ''primaryBackground''))"
proof -
  have c: "fstoreTrajectories example_config" "fkeepOnlyPrimaryFullTraj example_config"
    "generator_storable example_begin 0" "fTrackIDOffset example_begin = 0"
    by code_simp+
  have pp: "primary_process ''primary'' = (''primary'', True)"
    "primary_process ''primaryBackground'' = (''primaryBackground'', False)"
    by code_simp+
  have g: "GetPrimaryParticle (example_primary l) =
      Some (Some \<lparr>MCParticleIndex = Some 0, MCTruthIndex = 0, MCParticleProcess = l\<rparr>)"
    "GetTrackID (example_primary l) = 1" for l
    by (simp_all add: example_primary_def)
  have "returns (preUserTrackingAction example_config (example_primary ''primary'')
                   example_begin)"
    by code_simp
  then have p: "preUserTrackingAction example_config (example_primary ''primary'')
      example_begin = Some (Inr (example_admitted ''primary''))"
    unfolding example_admitted_def by (rule returnsD)
  have h: "hasParticle (fCurrentParticle (example_admitted ''primary''))"
    by code_simp
  from keepFullTrajectory_is_chain[OF p h]
  have 1: "fMCTIndexMap (example_admitted ''primary'') 1 = Some 0 \<and>
     from_primary_process (example_admitted ''primary'') 1 \<and>
     keepFullTrajectory (fCurrentParticle (example_admitted ''primary''))"
    by (auto simp add: g c pp keepFullTrajectory_chain_def)
  have "returns (preUserTrackingAction example_config (example_primary ''primaryBackground'')
                   example_begin)"
    by code_simp
  then have p': "preUserTrackingAction example_config (example_primary ''primaryBackground'')
      example_begin = Some (Inr (example_admitted ''primaryBackground''))"
    unfolding example_admitted_def by (rule returnsD)
  have h': "hasParticle (fCurrentParticle (example_admitted ''primaryBackground''))"
    by code_simp
  from keepFullTrajectory_is_chain[OF p' h']
  have 2: "fMCTIndexMap (example_admitted ''primaryBackground'') 1 = Some 0 \<and>
     \<not> from_primary_process (example_admitted ''primaryBackground'') 1 \<and>
     \<not> keepFullTrajectory (fCurrentParticle (example_admitted ''primaryBackground''))"
    by (auto simp add: g c pp keepFullTrajectory_chain_def)
  from p h c 1 p' h' 2 show ?thesis by simp
qed

subsection \<open>The energy cut\<close>

text \<open>
  Claim C9. A track without primary provenance, with kinetic energy strictly below the
  threshold and a particle code other than 0: whenever the callback comes back, it
  comes back without an exception, the particle list, the dropped list and the particle
  store are as before and the active slot is empty, so that the stepping and track-end
  callbacks that follow change nothing; the track is nowhere in the retained list. A
  track at or above the threshold (or with code 0) that the callback admits has its
  record, and the record is in the retained list unless the proper time is nonzero or
  the process is excluded. In causal order the callback does come back.
\<close>

theorem energy_cut_drops_exactly_below:
  assumes "GetPrimaryParticle track = None"
  shows "(energy_cut cfg track \<longrightarrow>
      (\<forall>r. preUserTrackingAction cfg track s = Some r \<longrightarrow>
         (\<exists>s'. r = Inr s' \<and> fParticleList s' = fParticleList s \<and>
            fdroppedParticleList s' = fdroppedParticleList s \<and>
            heap s' = heap s \<and> next_addr s' = next_addr s \<and>
            fCurrentParticle s' = clear_info \<and>
            (\<forall>st. userSteppingAction cfg st s' = (st, s')) \<and>
            (\<forall>SparsifyTrajectory aTrack.
               postUserTrackingAction SparsifyTrajectory cfg aTrack s' = s')))) \<and>
    (fenergyCut cfg \<le> GetKineticEnergy track \<or> GetPDGEncoding track = 0 \<longrightarrow>
      (\<forall>s'. preUserTrackingAction cfg track s = Some (Inr s') \<longrightarrow>
         particle (fCurrentParticle s') = Some (next_addr s) \<and>
         TrackId (heap s' (next_addr s)) = GetTrackID track + fTrackIDOffset s \<and>
         (GetProperTime track = 0 \<and> \<not> excluded_process cfg (GetCreatorProcessName track) \<longrightarrow>
            map_of (entries (fParticleList s')) (GetTrackID track + fTrackIDOffset s) =
              Some (Some (next_addr s))))) \<and>
    (causal (fParentIDMap s) \<and> 0 \<le> GetParentID track + fTrackIDOffset s \<and>
     GetParentID track < GetTrackID track \<longrightarrow>
       preUserTrackingAction cfg track s \<noteq> None)"
proof (intro conjI)
  show "energy_cut cfg track \<longrightarrow>
      (\<forall>r. preUserTrackingAction cfg track s = Some r \<longrightarrow>
         (\<exists>s'. r = Inr s' \<and> fParticleList s' = fParticleList s \<and>
            fdroppedParticleList s' = fdroppedParticleList s \<and>
            heap s' = heap s \<and> next_addr s' = next_addr s \<and>
            fCurrentParticle s' = clear_info \<and>
            (\<forall>st. userSteppingAction cfg st s' = (st, s')) \<and>
            (\<forall>SparsifyTrajectory aTrack.
               postUserTrackingAction SparsifyTrajectory cfg aTrack s' = s')))"
  proof (intro impI allI)
    fix r
    assume c: "energy_cut cfg track" and p: "preUserTrackingAction cfg track s = Some r"
    from preUserTrackingAction_cut[OF assms c p] obtain s' where
      s': "r = Inr s'" "fParticleList s' = fParticleList s"
        "fdroppedParticleList s' = fdroppedParticleList s" "heap s' = heap s"
        "next_addr s' = next_addr s" "fCurrentParticle s' = clear_info"
      by (elim exE conjE)
    show "\<exists>s'. r = Inr s' \<and> fParticleList s' = fParticleList s \<and>
              fdroppedParticleList s' = fdroppedParticleList s \<and>
              heap s' = heap s \<and> next_addr s' = next_addr s \<and>
              fCurrentParticle s' = clear_info \<and>
              (\<forall>st. userSteppingAction cfg st s' = (st, s')) \<and>
              (\<forall>SparsifyTrajectory aTrack.
                 postUserTrackingAction SparsifyTrajectory cfg aTrack s' = s')"
      by (rule exI[of _ s']) (simp add: s' no_active_particle[OF s'(6)])
  qed
next
  show "fenergyCut cfg \<le> GetKineticEnergy track \<or> GetPDGEncoding track = 0 \<longrightarrow>
      (\<forall>s'. preUserTrackingAction cfg track s = Some (Inr s') \<longrightarrow>
         particle (fCurrentParticle s') = Some (next_addr s) \<and>
         TrackId (heap s' (next_addr s)) = GetTrackID track + fTrackIDOffset s \<and>
         (GetProperTime track = 0 \<and> \<not> excluded_process cfg (GetCreatorProcessName track) \<longrightarrow>
            map_of (entries (fParticleList s')) (GetTrackID track + fTrackIDOffset s) =
              Some (Some (next_addr s))))"
  proof (intro impI allI)
    fix s'
    assume "fenergyCut cfg \<le> GetKineticEnergy track \<or> GetPDGEncoding track = 0"
      and p: "preUserTrackingAction cfg track s = Some (Inr s')"
    then have nc: "\<not> (GetKineticEnergy track < fenergyCut cfg \<and> GetPDGEncoding track \<noteq> 0)"
      by auto
    show "particle (fCurrentParticle s') = Some (next_addr s) \<and>
           TrackId (heap s' (next_addr s)) = GetTrackID track + fTrackIDOffset s \<and>
           (GetProperTime track = 0 \<and> \<not> excluded_process cfg (GetCreatorProcessName track) \<longrightarrow>
              map_of (entries (fParticleList s')) (GetTrackID track + fTrackIDOffset s) =
                Some (Some (next_addr s)))"
      by (rule preUserTrackingAction_pass[OF assms nc p])
  qed
next
  show "causal (fParentIDMap s) \<and> 0 \<le> GetParentID track + fTrackIDOffset s \<and>
     GetParentID track < GetTrackID track \<longrightarrow>
       preUserTrackingAction cfg track s \<noteq> None"
    using preUserTrackingAction_causal[of s track cfg] by auto
qed

theorem energy_cut_drops_exactly_below_witness:
  "energy_cut example_config (example_secondary ''Decay'' 0.5) \<and>
   preUserTrackingAction example_config (example_secondary ''Decay'' 0.5)
     (example_admitted ''primary'') = Some (Inr (example_admitted_secondary ''Decay'' 0.5)) \<and>
   fParticleList (example_admitted_secondary ''Decay'' 0.5) =
     fParticleList (example_admitted ''primary'') \<and>
   fCurrentParticle (example_admitted_secondary ''Decay'' 0.5) = clear_info \<and>
   fenergyCut example_config \<le> GetKineticEnergy (example_secondary ''Decay'' 1) \<and>
   preUserTrackingAction example_config (example_secondary ''Decay'' 1)
     (example_admitted ''primary'') = Some (Inr (example_admitted_secondary ''Decay'' 1)) \<and>
   map_of (entries (fParticleList (example_admitted_secondary ''Decay'' 1))) 2 =
     Some (Some 1)"
proof -
  have np: "GetPrimaryParticle (example_secondary process energy) = None" for process energy
    by (simp add: example_secondary_def)
  have c: "energy_cut example_config (example_secondary ''Decay'' 0.5)"
    "fenergyCut example_config \<le> GetKineticEnergy (example_secondary ''Decay'' 1)"
    by (simp_all add: energy_cut_def example_config_def ParticleListActionService_def
        example_parameters_def example_secondary_def Let_def)
  have r: "returns (preUserTrackingAction example_config (example_secondary ''Decay'' 0.5)
                      (example_admitted ''primary''))"
    "returns (preUserTrackingAction example_config (example_secondary ''Decay'' 1)
                      (example_admitted ''primary''))"
    by code_simp+
  have e: "GetProperTime (example_secondary ''Decay'' 1) = 0"
    "\<not> excluded_process example_config (GetCreatorProcessName (example_secondary ''Decay'' 1))"
    "GetTrackID (example_secondary ''Decay'' 1) + fTrackIDOffset (example_admitted ''primary'') = 2"
    "next_addr (example_admitted ''primary'') = 1"
    by code_simp+
  show ?thesis
    using energy_cut_drops_exactly_below[OF np, of example_config "''Decay''" "0.5"
        "example_admitted ''primary''"]
      energy_cut_drops_exactly_below[OF np, of example_config "''Decay''" 1
        "example_admitted ''primary''"]
      c admitted_secondary[OF r(1)] admitted_secondary[OF r(2)] e
    by simp
qed

subsection \<open>The truth index of the parent\<close>

text \<open>
  Claim C4. A track without primary provenance that the energy cut lets pass, in causal
  order: its parent is resolved, and the callback throws the logic error if and only if
  the resolved parent has no entry in the truth-index map; when the entry exists, the
  callback comes back and the track has the parent's truth-record index and the
  parent's primary-process flag.
\<close>

theorem missing_truth_index_is_fatal:
  assumes np: "GetPrimaryParticle track = None"
    and nc: "\<not> energy_cut cfg track"
    and ca: "causal (fParentIDMap s)" "0 \<le> GetParentID track + fTrackIDOffset s"
      "GetParentID track < GetTrackID track"
  shows "\<exists>rp. resolved_parent s (GetTrackID track + fTrackIDOffset s)
               (GetParentID track + fTrackIDOffset s) = Some rp \<and>
     ((\<exists>s'. preUserTrackingAction cfg track s = Some (Inl (LogicError, s'))) \<longleftrightarrow>
        fMCTIndexMap s rp = None) \<and>
     (\<forall>i. fMCTIndexMap s rp = Some i \<longrightarrow>
        (\<exists>s'. preUserTrackingAction cfg track s = Some (Inr s') \<and>
           fMCTIndexMap s' (GetTrackID track + fTrackIDOffset s) = Some i \<and>
           fMCTPrimProcessKeepMap s' (GetTrackID track + fTrackIDOffset s) =
             Some (fMCTPrimProcessKeepMap s rp = Some True)))"
proof -
  from preUserTrackingAction_causal[OF ca, of cfg] obtain r where
    r: "preUserTrackingAction cfg track s = Some r" by (elim exE conjE)
  have nc': "\<not> (GetKineticEnergy track < fenergyCut cfg \<and> GetPDGEncoding track \<noteq> 0)"
    using nc by (simp add: energy_cut_def)
  show ?thesis
  proof (rule preUserTrackingAction_admit[OF np r nc'])
    fix rp s2
    assume rp: "resolved_parent s (GetTrackID track + fTrackIDOffset s)
               (GetParentID track + fTrackIDOffset s) = Some rp"
      and n: "fMCTIndexMap s rp = None \<longrightarrow> r = Inl (LogicError, s2)"
      and c: "\<forall>i. fMCTIndexMap s rp = Some i \<longrightarrow>
          r = Inr (create_particle cfg track (GetTrackID track + fTrackIDOffset s)
                     (GetPDGEncoding track) (GetCreatorProcessName track) rp None i
                     (fMCTPrimProcessKeepMap s rp = Some True)
                     (excluded_process cfg (GetCreatorProcessName track)) s2)"
    show ?thesis
    proof (cases "fMCTIndexMap s rp")
      case None
      with n r rp show ?thesis by (intro exI[of _ rp]) simp
    next
      case (Some i)
      with c r rp show ?thesis
        by (intro exI[of _ rp]) (simp add: create_particle_fields)
    qed
  qed
qed

theorem missing_truth_index_is_fatal_witness:
  "resolved_parent (example_admitted ''primary'') 2 1 = Some 1 \<and>
   fMCTIndexMap (example_admitted ''primary'') 1 = Some 0 \<and>
   preUserTrackingAction example_config (example_secondary ''Decay'' 1)
     (example_admitted ''primary'') = Some (Inr (example_admitted_secondary ''Decay'' 1)) \<and>
   fMCTIndexMap (example_admitted_secondary ''Decay'' 1) 2 = Some 0 \<and>
   fMCTPrimProcessKeepMap (example_admitted_secondary ''Decay'' 1) 2 = Some True \<and>
   resolved_parent example_begin 2 1 = Some 1 \<and>
   fMCTIndexMap example_begin 1 = None \<and>
   thrown (preUserTrackingAction example_config (example_secondary ''Decay'' 1) example_begin) =
     Some LogicError"
proof -
  have np: "GetPrimaryParticle (example_secondary ''Decay'' 1) = None"
    by (simp add: example_secondary_def)
  have nc: "\<not> energy_cut example_config (example_secondary ''Decay'' 1)"
    by (simp add: energy_cut_def example_config_def ParticleListActionService_def
        example_parameters_def example_secondary_def Let_def)
  have o: "fTrackIDOffset example_begin = 0" "fTrackIDOffset (example_admitted ''primary'') = 0"
    by code_simp+
  have i: "GetTrackID (example_secondary ''Decay'' 1) = 2"
    "GetParentID (example_secondary ''Decay'' 1) = 1"
    by (simp_all add: example_secondary_def)
  have rp: "resolved_parent (example_admitted ''primary'') 2 1 = Some 1"
    "resolved_parent example_begin 2 1 = Some 1"
    by code_simp+
  have m: "fMCTIndexMap (example_admitted ''primary'') 1 = Some 0"
    "fMCTIndexMap example_begin 1 = None"
    "fMCTPrimProcessKeepMap (example_admitted ''primary'') 1 = Some True"
    by code_simp+
  from missing_truth_index_is_fatal[OF np nc causal_example_admitted] rp(1) m(1,3)
  obtain s' where a: "preUserTrackingAction example_config (example_secondary ''Decay'' 1)
        (example_admitted ''primary'') = Some (Inr s')"
      "fMCTIndexMap s' 2 = Some 0" "fMCTPrimProcessKeepMap s' 2 = Some True"
    by (auto simp add: o i)
  from missing_truth_index_is_fatal[OF np nc causal_example_begin] rp(2) m(2)
  obtain s'' where b: "preUserTrackingAction example_config (example_secondary ''Decay'' 1)
        example_begin = Some (Inl (LogicError, s''))"
    by (auto simp add: o i)
  have "example_admitted_secondary ''Decay'' 1 = s'"
    by (simp add: example_admitted_secondary_def a(1) returned_Inr)
  then show ?thesis
    using a b rp m by (simp add: thrown_Inl)
qed

subsection \<open>The ancestor walk\<close>

lemma energy_cut_block_identity:
  assumes "energy_cut_block tid pid s = Some s'"
  shows "\<exists>g. GetParentage ((fParentIDMap s)(tid \<mapsto> pid)) tid = Some g \<and>
     fCurrentTrackID s' = - g \<and> fTargetIDMap s' tid = Some (- g)"
  using assms by (auto simp add: energy_cut_block_def Let_def split: option.splits)

lemma not_primary_cut_identity:
  assumes r: "not_primary cfg track tid pdg pid s = Some r"
    and c: "GetKineticEnergy track < fenergyCut cfg \<and> pdg \<noteq> 0"
  shows "\<exists>s' g. r = Inr (None, s') \<and> fCurrentParticle s' = clear_info \<and>
     GetParentage ((fParentIDMap s)(tid \<mapsto> pid)) tid = Some g \<and>
     fCurrentTrackID s' = - g \<and> fTargetIDMap s' tid = Some (- g)"
proof -
  from r obtain ns s1 where
    e: "exclusion_filter cfg (GetCreatorProcessName track) tid pid s = Some (ns, s1)"
    by (auto simp add: not_primary_def Let_def split: option.splits)
  from r e c obtain s2 where b: "energy_cut_block tid pid s1 = Some s2" and r': "r = Inr (None, s2)"
    by (auto simp add: not_primary_def Let_def split: option.splits)
  from exclusion_filter_frame[OF e]
  have m: "(fParentIDMap s1)(tid \<mapsto> pid) = (fParentIDMap s)(tid \<mapsto> pid)" by simp
  from energy_cut_block_identity[OF b] energy_cut_block_frame[OF b] r' show ?thesis
    unfolding m by auto
qed

lemma preUserTrackingAction_cut_identity:
  assumes np: "GetPrimaryParticle track = None"
    and c: "energy_cut cfg track"
    and p: "preUserTrackingAction cfg track s = Some r"
  shows "\<exists>s' g. r = Inr s' \<and> fCurrentParticle s' = clear_info \<and>
     GetParentage ((fParentIDMap s)(GetTrackID track + fTrackIDOffset s \<mapsto>
                                     GetParentID track + fTrackIDOffset s))
       (GetTrackID track + fTrackIDOffset s) = Some g \<and>
     fCurrentTrackID s' = - g \<and>
     fTargetIDMap s' (GetTrackID track + fTrackIDOffset s) = Some (- g)"
proof -
  let ?s = "s\<lparr>fCurrentTrackID := GetTrackID track + fTrackIDOffset s,
           fTargetIDMap := (fTargetIDMap s)(GetTrackID track + fTrackIDOffset s \<mapsto>
                                             GetTrackID track + fTrackIDOffset s)\<rparr>"
  from p obtain r0 where r0: "not_primary cfg track (GetTrackID track + fTrackIDOffset s)
        (GetPDGEncoding track) (GetParentID track + fTrackIDOffset s) ?s = Some r0"
    unfolding preUserTrackingAction_not_primary[OF np] by (auto split: option.splits)
  from c have c': "GetKineticEnergy track < fenergyCut cfg \<and> GetPDGEncoding track \<noteq> 0"
    by (simp add: energy_cut_def)
  from not_primary_cut_identity[OF r0 c'] obtain s' g where s': "r0 = Inr (None, s')"
    "fCurrentParticle s' = clear_info"
    "GetParentage ((fParentIDMap ?s)(GetTrackID track + fTrackIDOffset s \<mapsto>
                                     GetParentID track + fTrackIDOffset s))
       (GetTrackID track + fTrackIDOffset s) = Some g"
    "fCurrentTrackID s' = - g"
    "fTargetIDMap s' (GetTrackID track + fTrackIDOffset s) = Some (- g)"
    by (elim exE conjE)
  have "r = Inr s'"
    using p r0 s'(1) unfolding preUserTrackingAction_not_primary[OF np] by simp
  then show ?thesis using s' by simp
qed

text \<open>
  Claim C2, what the code does. When every entry of the parent-substitution map leads
  from a track ID to a smaller ID that is not negative (causal order) the ancestor walk
  ends for every track ID, and the admission of a track whose parent ID is smaller than
  its own ends too and keeps the map in causal order; the map is in causal order at the
  start of an event, and the stepping and track-end callbacks do not change it. For a
  track dropped by the process-exclusion filter and not by the energy cut, the identity
  recorded for it (\<^verbatim>\<open>fCurrentTrackID\<close>, also its entry in \<^verbatim>\<open>fTargetIDMap\<close>) is the
  sentinel or the negated result of the walk, an ID known to the retained list. For a
  track dropped by the energy cut no record is created and the identity recorded is the
  negated result of the walk, whether the retained list knows that ID or not: line 366
  has no check like that of line 347.
\<close>

theorem ancestor_walk_ends_in_causal_order:
  assumes "causal (fParentIDMap s)"
    and "0 \<le> GetParentID track + fTrackIDOffset s"
    and "GetParentID track < GetTrackID track"
  shows "(\<forall>t. \<exists>y. GetParentage (fParentIDMap s) t = Some y) \<and>
    (\<exists>r. preUserTrackingAction cfg track s = Some r \<and>
       causal (fParentIDMap (members_after r)) \<and>
       (GetPrimaryParticle track = None \<and>
        excluded_process cfg (GetCreatorProcessName track) \<and> \<not> energy_cut cfg track \<longrightarrow>
          fTargetIDMap (members_after r) (GetTrackID track + fTrackIDOffset s) =
            Some (fCurrentTrackID (members_after r)) \<and>
          (fCurrentTrackID (members_after r) = NoParticleId \<or>
           (\<exists>g. GetParentage ((fParentIDMap s)(GetTrackID track + fTrackIDOffset s \<mapsto>
                                                 GetParentID track + fTrackIDOffset s))
                   (GetTrackID track + fTrackIDOffset s) = Some g \<and>
                fCurrentTrackID (members_after r) = - g \<and>
                KnownParticle (fParticleList (members_after r)) g))) \<and>
       (GetPrimaryParticle track = None \<and> energy_cut cfg track \<longrightarrow>
          \<not> isl r \<and> fCurrentParticle (members_after r) = clear_info \<and>
          (\<exists>g. GetParentage ((fParentIDMap s)(GetTrackID track + fTrackIDOffset s \<mapsto>
                                                GetParentID track + fTrackIDOffset s))
                  (GetTrackID track + fTrackIDOffset s) = Some g \<and>
               fCurrentTrackID (members_after r) = - g \<and>
               fTargetIDMap (members_after r) (GetTrackID track + fTrackIDOffset s) =
                 Some (- g)))) \<and>
    causal (fParentIDMap (beginOfEventAction cfg s)) \<and>
    fParentIDMap (snd (userSteppingAction cfg st s)) = fParentIDMap s \<and>
    fParentIDMap (postUserTrackingAction SparsifyTrajectory cfg aTrack s) = fParentIDMap s"
proof -
  from preUserTrackingAction_causal[OF assms, of cfg] obtain r where
    r: "preUserTrackingAction cfg track s = Some r"
    and c: "causal (fParentIDMap (members_after r))"
    by (elim exE conjE)
  have id: "fTargetIDMap (members_after r) (GetTrackID track + fTrackIDOffset s) =
            Some (fCurrentTrackID (members_after r)) \<and>
          (fCurrentTrackID (members_after r) = NoParticleId \<or>
           (\<exists>g. GetParentage ((fParentIDMap s)(GetTrackID track + fTrackIDOffset s \<mapsto>
                                                 GetParentID track + fTrackIDOffset s))
                   (GetTrackID track + fTrackIDOffset s) = Some g \<and>
                fCurrentTrackID (members_after r) = - g \<and>
                KnownParticle (fParticleList (members_after r)) g))"
    if np: "GetPrimaryParticle track = None"
      and ex: "excluded_process cfg (GetCreatorProcessName track)"
      and nc: "\<not> energy_cut cfg track"
  proof -
    have nc': "\<not> (GetKineticEnergy track < fenergyCut cfg \<and> GetPDGEncoding track \<noteq> 0)"
      using nc by (simp add: energy_cut_def)
    show ?thesis
    proof (rule preUserTrackingAction_admit[OF np r nc'])
      fix rp s2
      assume f: "fParticleList s2 = fParticleList s"
        and t: "excluded_process cfg (GetCreatorProcessName track) \<longrightarrow>
          fTargetIDMap s2 (GetTrackID track + fTrackIDOffset s) = Some (fCurrentTrackID s2) \<and>
          (fCurrentTrackID s2 = NoParticleId \<or>
           (\<exists>g. GetParentage ((fParentIDMap s)(GetTrackID track + fTrackIDOffset s \<mapsto>
                                                 GetParentID track + fTrackIDOffset s))
                   (GetTrackID track + fTrackIDOffset s) = Some g \<and>
                fCurrentTrackID s2 = - g \<and> KnownParticle (fParticleList s) g))"
        and n: "fMCTIndexMap s rp = None \<longrightarrow> r = Inl (LogicError, s2)"
        and a: "\<forall>i. fMCTIndexMap s rp = Some i \<longrightarrow>
            r = Inr (create_particle cfg track (GetTrackID track + fTrackIDOffset s)
                       (GetPDGEncoding track) (GetCreatorProcessName track) rp None i
                       (fMCTPrimProcessKeepMap s rp = Some True)
                       (excluded_process cfg (GetCreatorProcessName track)) s2)"
      show ?thesis
      proof (cases "fMCTIndexMap s rp")
        case None
        with n have "members_after r = s2" by (simp add: members_after_def)
        then show ?thesis using t ex f by simp
      next
        case (Some i)
        with a have m: "members_after r =
            create_particle cfg track (GetTrackID track + fTrackIDOffset s)
              (GetPDGEncoding track) (GetCreatorProcessName track) rp None i
              (fMCTPrimProcessKeepMap s rp = Some True) True s2"
          using ex by (simp add: members_after_def)
        show ?thesis unfolding m using t ex f by (simp add: create_particle_fields)
      qed
    qed
  qed
  have cut: "\<not> isl r \<and> fCurrentParticle (members_after r) = clear_info \<and>
          (\<exists>g. GetParentage ((fParentIDMap s)(GetTrackID track + fTrackIDOffset s \<mapsto>
                                                GetParentID track + fTrackIDOffset s))
                  (GetTrackID track + fTrackIDOffset s) = Some g \<and>
               fCurrentTrackID (members_after r) = - g \<and>
               fTargetIDMap (members_after r) (GetTrackID track + fTrackIDOffset s) =
                 Some (- g))"
    if np: "GetPrimaryParticle track = None" and ec: "energy_cut cfg track"
    using preUserTrackingAction_cut_identity[OF np ec r]
    by (auto simp add: members_after_def)
  have w: "\<forall>t. \<exists>y. GetParentage (fParentIDMap s) t = Some y"
    using GetParentage_causal[OF assms(1)] by blast
  have b: "causal (fParentIDMap (beginOfEventAction cfg s))"
    by (simp add: beginOfEventAction_def causal_empty)
  show ?thesis
    using w r c id cut b
    by (intro conjI exI[of _ r]) (simp_all add: unchanged_parents)
qed

theorem ancestor_walk_ends_in_causal_order_witness:
  "causal (fParentIDMap (example_admitted ''primary'')) \<and>
   GetParentage (fParentIDMap (example_admitted ''primary'')) 2 = Some NoParticleId \<and>
   preUserTrackingAction example_config (example_secondary ''phot'' 1)
     (example_admitted ''primary'') = Some (Inr (example_admitted_secondary ''phot'' 1)) \<and>
   causal (fParentIDMap (example_admitted_secondary ''phot'' 1)) \<and>
   excluded_process example_config (GetCreatorProcessName (example_secondary ''phot'' 1)) \<and>
   fTargetIDMap (example_admitted_secondary ''phot'' 1) 2 =
     Some (fCurrentTrackID (example_admitted_secondary ''phot'' 1)) \<and>
   fCurrentTrackID (example_admitted_secondary ''phot'' 1) = - 1 \<and>
   KnownParticle (fParticleList (example_admitted_secondary ''phot'' 1)) 1 \<and>
   preUserTrackingAction example_config (example_secondary ''Decay'' 0.5)
     (example_admitted ''primary'') = Some (Inr (example_admitted_secondary ''Decay'' 0.5)) \<and>
   energy_cut example_config (example_secondary ''Decay'' 0.5) \<and>
   causal (fParentIDMap (example_admitted_secondary ''Decay'' 0.5)) \<and>
   fCurrentParticle (example_admitted_secondary ''Decay'' 0.5) = clear_info \<and>
   GetParentage ((fParentIDMap (example_admitted ''primary''))(2 \<mapsto> 1)) 2 = Some 1 \<and>
   fCurrentTrackID (example_admitted_secondary ''Decay'' 0.5) = - 1 \<and>
   fTargetIDMap (example_admitted_secondary ''Decay'' 0.5) 2 = Some (- 1)"
proof -
  have r: "returns (preUserTrackingAction example_config (example_secondary ''phot'' 1)
                      (example_admitted ''primary''))"
    by code_simp
  note p = admitted_secondary[OF r]
  have h: "0 \<le> GetParentID (example_secondary l e) +
               fTrackIDOffset (example_admitted ''primary'')"
    "GetParentID (example_secondary l e) < GetTrackID (example_secondary l e)" for l e
    by (code_simp, simp add: example_secondary_def)
  have o: "fTrackIDOffset (example_admitted ''primary'') = 0"
    by code_simp
  have i: "GetPrimaryParticle (example_secondary l e) = None"
    "GetTrackID (example_secondary l e) = 2" "GetParentID (example_secondary l e) = 1" for l e
    by (simp_all add: example_secondary_def)
  have e: "excluded_process example_config (GetCreatorProcessName (example_secondary ''phot'' 1))"
    "\<not> energy_cut example_config (example_secondary ''phot'' 1)"
    by (code_simp,
        simp add: energy_cut_def example_config_def ParticleListActionService_def
          example_parameters_def example_secondary_def Let_def)
  have v: "GetParentage (fParentIDMap (example_admitted ''primary'')) 2 = Some NoParticleId"
    "fCurrentTrackID (example_admitted_secondary ''phot'' 1) = - 1"
    "KnownParticle (fParticleList (example_admitted_secondary ''phot'' 1)) 1"
    by code_simp+
  have 1: "causal (fParentIDMap (example_admitted_secondary ''phot'' 1)) \<and>
     fTargetIDMap (example_admitted_secondary ''phot'' 1) 2 =
       Some (fCurrentTrackID (example_admitted_secondary ''phot'' 1))"
    using ancestor_walk_ends_in_causal_order[OF causal_example_admitted
        h[of "''phot''" 1], of example_config] p i e o
    by (simp add: members_after_def)
  have r': "returns (preUserTrackingAction example_config (example_secondary ''Decay'' 0.5)
                      (example_admitted ''primary''))"
    by code_simp
  note p' = admitted_secondary[OF r']
  have c: "energy_cut example_config (example_secondary ''Decay'' 0.5)"
    by (simp add: energy_cut_def example_config_def ParticleListActionService_def
          example_parameters_def example_secondary_def Let_def)
  have g: "GetParentage ((fParentIDMap (example_admitted ''primary''))(2 \<mapsto> 1)) 2 = Some 1"
    by code_simp
  have 2: "causal (fParentIDMap (example_admitted_secondary ''Decay'' 0.5)) \<and>
     fCurrentParticle (example_admitted_secondary ''Decay'' 0.5) = clear_info \<and>
     fCurrentTrackID (example_admitted_secondary ''Decay'' 0.5) = - 1 \<and>
     fTargetIDMap (example_admitted_secondary ''Decay'' 0.5) 2 = Some (- 1)"
    using ancestor_walk_ends_in_causal_order[OF causal_example_admitted
        h[of "''Decay''" "0.5"], of example_config] p' i c o g
    by (simp add: members_after_def)
  show ?thesis
    using causal_example_admitted p e(1) v 1 p' c g 2 by simp
qed

text \<open>
  The input on which the code leaves claim C2. The example primary ends without a
  process and is erased from the retained list; the example secondary, its daughter, is
  then dropped by the energy cut and gets the identity \<open>-1\<close>, neither the sentinel nor
  an ID the list knows.
\<close>

theorem energy_cut_records_unknown_ancestor:
  "\<not> KnownParticle (fParticleList example_erased) 1 \<and>
   returns (preUserTrackingAction example_config (example_secondary ''Decay'' 0.5)
              example_erased) \<and>
   fCurrentParticle example_orphan = clear_info \<and>
   fTargetIDMap example_orphan 2 = Some (- 1) \<and>
   fCurrentTrackID example_orphan = - 1 \<and>
   \<not> KnownParticle (fParticleList example_orphan) (- 1) \<and>
   - 1 \<noteq> NoParticleId"
proof -
  have "\<not> KnownParticle (fParticleList example_erased) 1"
    by code_simp
  moreover have "returns (preUserTrackingAction example_config
      (example_secondary ''Decay'' 0.5) example_erased)"
    by code_simp
  moreover have "fCurrentParticle example_orphan = clear_info"
    by code_simp
  moreover have "fTargetIDMap example_orphan 2 = Some (- 1)"
    by code_simp
  moreover have "fCurrentTrackID example_orphan = - 1"
    by code_simp
  moreover have "\<not> KnownParticle (fParticleList example_orphan) (- 1)"
    by code_simp
  moreover have "- 1 \<noteq> NoParticleId"
    by (simp add: NoParticleId_def)
  ultimately show ?thesis by simp
qed

subsection \<open>The ancestry map and the energy cut\<close>

text \<open>
  Claim C3, evaluated where it fails. The example secondary, with the retained primary 1
  as its parent, made by a process that is not excluded and below the energy cut, is
  recorded in the ancestry map under the sentinel: line 361 asks \<^verbatim>\<open>GetParentage\<close> before
  line 365 puts the track into the parent-substitution map. Its ultimate ancestor is 1,
  the key under which the process-exclusion filter records the same track. No record is
  created for it.
\<close>

theorem energy_cut_records_under_sentinel:
  "energy_cut example_config (example_secondary ''Decay'' 0.5) \<and>
   \<not> excluded_process example_config ''Decay'' \<and>
   KnownParticle (fParticleList (example_admitted ''primary'')) 1 \<and>
   returns (preUserTrackingAction example_config (example_secondary ''Decay'' 0.5)
              (example_admitted ''primary'')) \<and>
   fdroppedTracksMap (example_admitted_secondary ''Decay'' 0.5) NoParticleId = Some {2} \<and>
   fdroppedTracksMap (example_admitted_secondary ''Decay'' 0.5) 1 = None \<and>
   fParentIDMap (example_admitted_secondary ''Decay'' 0.5) 2 = Some 1 \<and>
   GetParentage (fParentIDMap (example_admitted_secondary ''Decay'' 0.5)) 2 = Some 1 \<and>
   next_addr (example_admitted_secondary ''Decay'' 0.5) = next_addr (example_admitted ''primary'') \<and>
   excluded_process example_config ''phot'' \<and>
   fdroppedTracksMap (example_admitted_secondary ''phot'' 1) 1 = Some {2}"
proof -
  have "energy_cut example_config (example_secondary ''Decay'' 0.5)"
    by (simp add: energy_cut_def example_config_def ParticleListActionService_def
        example_parameters_def example_secondary_def Let_def)
  moreover have "\<not> excluded_process example_config ''Decay''"
    by code_simp
  moreover have "KnownParticle (fParticleList (example_admitted ''primary'')) 1"
    by code_simp
  moreover have "returns (preUserTrackingAction example_config
      (example_secondary ''Decay'' 0.5) (example_admitted ''primary''))"
    by code_simp
  moreover have "fdroppedTracksMap (example_admitted_secondary ''Decay'' 0.5) NoParticleId = Some {2}"
    by code_simp
  moreover have "fdroppedTracksMap (example_admitted_secondary ''Decay'' 0.5) 1 = None"
    by code_simp
  moreover have "fParentIDMap (example_admitted_secondary ''Decay'' 0.5) 2 = Some 1"
    by code_simp
  moreover have "GetParentage (fParentIDMap (example_admitted_secondary ''Decay'' 0.5)) 2 = Some 1"
    by code_simp
  moreover have "next_addr (example_admitted_secondary ''Decay'' 0.5) =
      next_addr (example_admitted ''primary'')"
    by code_simp
  moreover have "excluded_process example_config ''phot''"
    by code_simp
  moreover have "fdroppedTracksMap (example_admitted_secondary ''phot'' 1) 1 = Some {2}"
    by code_simp
  ultimately show ?thesis by simp
qed

subsection \<open>The track-ID offset\<close>

lemma preUserTrackingAction_offset:
  assumes "preUserTrackingAction cfg track s = Some r"
  shows "fTrackIDOffset (members_after r) = fTrackIDOffset s"
proof (cases "GetPrimaryParticle track")
  case (Some pp)
  with assms show ?thesis
    by (auto simp add: preUserTrackingAction_def Let_def members_after_def
        create_particle_fields split: option.splits prod.splits)
next
  case None
  show ?thesis
  proof (cases "GetKineticEnergy track < fenergyCut cfg \<and> GetPDGEncoding track \<noteq> 0")
    case True
    then have "energy_cut cfg track" by (simp add: energy_cut_def)
    from preUserTrackingAction_cut[OF None this assms] show ?thesis
      by (auto simp add: members_after_def)
  next
    case False
    show ?thesis
    proof (rule preUserTrackingAction_admit[OF None assms False])
      fix rp s2
      assume f: "fTrackIDOffset s2 = fTrackIDOffset s"
        and n: "fMCTIndexMap s rp = None \<longrightarrow> r = Inl (LogicError, s2)"
        and a: "\<forall>i. fMCTIndexMap s rp = Some i \<longrightarrow>
            r = Inr (create_particle cfg track (GetTrackID track + fTrackIDOffset s)
                       (GetPDGEncoding track) (GetCreatorProcessName track) rp None i
                       (fMCTPrimProcessKeepMap s rp = Some True)
                       (excluded_process cfg (GetCreatorProcessName track)) s2)"
      show ?thesis
        using f n a
        by (cases "fMCTIndexMap s rp") (simp_all add: members_after_def create_particle_fields)
    qed
  qed
qed

lemma unchanged_offset:
  "fTrackIDOffset (snd (userSteppingAction cfg st s)) = fTrackIDOffset s"
  "fTrackIDOffset (postUserTrackingAction SparsifyTrajectory cfg aTrack s) = fTrackIDOffset s"
  by (simp_all add: userSteppingAction_def postUserTrackingAction_def store_truth_def Let_def
      split: option.splits)

lemma highest_loop_Max: "highest_loop xs h = Max (insert h (fst ` set xs))"
  using highest_loop_bounds[of h xs] by (intro Max_eqI[symmetric]) auto

lemma YieldList_offset:
  assumes "entries (fParticleList s) \<noteq> []"
  shows "fTrackIDOffset (snd (YieldList s)) =
     int_wrap (Max (insert 0 (track_ids (fParticleList s) \<union>
                    (case fdroppedParticleList s of None \<Rightarrow> {} | Some d \<Rightarrow> track_ids d))) + 1)"
proof (cases "fdroppedParticleList s")
  case None
  with assms show ?thesis
    by (simp add: YieldList_def Let_def size_of_def track_ids_def highest_loop_Max
        del: Max_insert)
next
  case (Some d)
  with assms show ?thesis
    by (simp add: YieldList_def Let_def size_of_def track_ids_def highest_loop_both
        del: Max_insert)
qed

lemma endOfEventAction_offset:
  "endOfEventAction cfg s = Inr s' \<Longrightarrow> fTrackIDOffset s' = 0"
  by (auto simp add: endOfEventAction_def split: sum.splits prod.splits)

lemma preUserTrackingAction_new_record:
  assumes "preUserTrackingAction cfg track s = Some (Inr s')"
    and "hasParticle (fCurrentParticle s')"
  shows "particle (fCurrentParticle s') = Some (next_addr s) \<and>
     TrackId (heap s' (next_addr s)) = GetTrackID track + fTrackIDOffset s"
proof (cases "GetPrimaryParticle track")
  case (Some pp)
  with assms(1) show ?thesis
    by (auto simp add: preUserTrackingAction_def Let_def create_particle_fields
        new_MCParticle_def split: option.splits prod.splits)
next
  case None
  show ?thesis
  proof (cases "GetKineticEnergy track < fenergyCut cfg \<and> GetPDGEncoding track \<noteq> 0")
    case True
    then have "energy_cut cfg track" by (simp add: energy_cut_def)
    from preUserTrackingAction_cut[OF None this assms(1)] assms(2) show ?thesis
      by (auto simp add: hasParticle_def clear_info_def)
  next
    case False
    from preUserTrackingAction_pass[OF None False assms(1)] show ?thesis by simp
  qed
qed

text \<open>
  Claim C1, what the code does. \<^verbatim>\<open>YieldList\<close> computes the offset that the claim
  describes: when the retained list is not empty it sets the offset to the 32-bit sum of
  1 and the highest ID of the retained and the dropped list (the search starting at 0),
  which is one more than the highest ID when that is below the largest \<^verbatim>\<open>int\<close>. But
  \<^verbatim>\<open>endOfEventAction\<close>, which calls \<^verbatim>\<open>YieldList\<close>, sets the offset to 0 before it returns
  (line 817), and \<^verbatim>\<open>beginOfEventAction\<close> sets it to 0 again (line 145). So the offset
  that a session finds is 0, it stays 0 through the admission, stepping and track-end
  callbacks of the session, and every record created there has the track ID that Geant4
  gave: the offset \<^verbatim>\<open>preUserTrackingAction\<close> adds (lines 244 to 250) is never the one
  that \<^verbatim>\<open>YieldList\<close> computed.
\<close>

theorem offset_is_reset:
  "fTrackIDOffset (beginOfEventAction cfg s) = 0 \<and>
   (\<forall>s'. endOfEventAction cfg s = Inr s' \<longrightarrow> fTrackIDOffset s' = 0) \<and>
   (entries (fParticleList s) \<noteq> [] \<longrightarrow>
      fTrackIDOffset (snd (YieldList s)) =
        int_wrap (Max (insert 0 (track_ids (fParticleList s) \<union>
               (case fdroppedParticleList s of None \<Rightarrow> {} | Some d \<Rightarrow> track_ids d))) + 1) \<and>
      (Max (insert 0 (track_ids (fParticleList s) \<union>
               (case fdroppedParticleList s of None \<Rightarrow> {} | Some d \<Rightarrow> track_ids d)))
         < 2 ^ 31 - 1 \<longrightarrow>
       fTrackIDOffset (snd (YieldList s)) =
         Max (insert 0 (track_ids (fParticleList s) \<union>
               (case fdroppedParticleList s of None \<Rightarrow> {} | Some d \<Rightarrow> track_ids d))) + 1)) \<and>
   (fTrackIDOffset s = 0 \<longrightarrow>
      (\<forall>r. preUserTrackingAction cfg track s = Some r \<longrightarrow>
         fTrackIDOffset (members_after r) = 0 \<and>
         (hasParticle (fCurrentParticle (members_after r)) \<and> \<not> isl r \<longrightarrow>
            particle (fCurrentParticle (members_after r)) = Some (next_addr s) \<and>
            TrackId (heap (members_after r) (next_addr s)) = GetTrackID track)) \<and>
      fTrackIDOffset (snd (userSteppingAction cfg st s)) = 0 \<and>
      fTrackIDOffset (postUserTrackingAction SparsifyTrajectory cfg aTrack s) = 0)"
proof (intro conjI)
  show "fTrackIDOffset (beginOfEventAction cfg s) = 0"
    by (simp add: beginOfEventAction_def)
  show "\<forall>s'. endOfEventAction cfg s = Inr s' \<longrightarrow> fTrackIDOffset s' = 0"
    using endOfEventAction_offset by blast
  show "entries (fParticleList s) \<noteq> [] \<longrightarrow>
      fTrackIDOffset (snd (YieldList s)) =
        int_wrap (Max (insert 0 (track_ids (fParticleList s) \<union>
               (case fdroppedParticleList s of None \<Rightarrow> {} | Some d \<Rightarrow> track_ids d))) + 1) \<and>
      (Max (insert 0 (track_ids (fParticleList s) \<union>
               (case fdroppedParticleList s of None \<Rightarrow> {} | Some d \<Rightarrow> track_ids d)))
         < 2 ^ 31 - 1 \<longrightarrow>
       fTrackIDOffset (snd (YieldList s)) =
         Max (insert 0 (track_ids (fParticleList s) \<union>
               (case fdroppedParticleList s of None \<Rightarrow> {} | Some d \<Rightarrow> track_ids d))) + 1)"
  proof (intro impI conjI)
    let ?M = "Max (insert 0 (track_ids (fParticleList s) \<union>
               (case fdroppedParticleList s of None \<Rightarrow> {} | Some d \<Rightarrow> track_ids d)))"
    assume e: "entries (fParticleList s) \<noteq> []"
    show y: "fTrackIDOffset (snd (YieldList s)) = int_wrap (?M + 1)"
      using e by (rule YieldList_offset)
    have "finite (track_ids (fParticleList s) \<union>
               (case fdroppedParticleList s of None \<Rightarrow> {} | Some d \<Rightarrow> track_ids d))"
      by (simp add: track_ids_def split: option.splits)
    then have m: "0 \<le> ?M" by (rule Max_insert_0)
    assume "?M < 2 ^ 31 - 1"
    with y int_wrap_successor(1)[OF m] show "fTrackIDOffset (snd (YieldList s)) = ?M + 1"
      by simp
  qed
  show "fTrackIDOffset s = 0 \<longrightarrow>
      (\<forall>r. preUserTrackingAction cfg track s = Some r \<longrightarrow>
         fTrackIDOffset (members_after r) = 0 \<and>
         (hasParticle (fCurrentParticle (members_after r)) \<and> \<not> isl r \<longrightarrow>
            particle (fCurrentParticle (members_after r)) = Some (next_addr s) \<and>
            TrackId (heap (members_after r) (next_addr s)) = GetTrackID track)) \<and>
      fTrackIDOffset (snd (userSteppingAction cfg st s)) = 0 \<and>
      fTrackIDOffset (postUserTrackingAction SparsifyTrajectory cfg aTrack s) = 0"
  proof (intro impI conjI allI)
    fix r
    assume z: "fTrackIDOffset s = 0" and p: "preUserTrackingAction cfg track s = Some r"
    show "fTrackIDOffset (members_after r) = 0"
      using preUserTrackingAction_offset[OF p] z by simp
  next
    fix r
    assume z: "fTrackIDOffset s = 0" and p: "preUserTrackingAction cfg track s = Some r"
      and h: "hasParticle (fCurrentParticle (members_after r)) \<and> \<not> isl r"
    then obtain s' where r: "r = Inr s'" by (cases r) auto
    from preUserTrackingAction_new_record[OF p[unfolded r]] h r z
    show "particle (fCurrentParticle (members_after r)) = Some (next_addr s)"
      and "TrackId (heap (members_after r) (next_addr s)) = GetTrackID track"
      by (simp_all add: members_after_def)
  next
    assume "fTrackIDOffset s = 0"
    then show "fTrackIDOffset (snd (userSteppingAction cfg st s)) = 0"
      and "fTrackIDOffset (postUserTrackingAction SparsifyTrajectory cfg aTrack s) = 0"
      by (simp_all add: unchanged_offset)
  qed
qed

theorem offset_is_reset_witness:
  "fTrackIDOffset (snd (YieldList (example_tracked example_service))) = 2 \<and>
   endOfEventAction example_config (example_tracked example_service) =
     Inr (projr (example_session example_service)) \<and>
   fTrackIDOffset (projr (example_session example_service)) = 0 \<and>
   fTrackIDOffset (beginOfEventAction example_config
                     (projr (example_session example_service))) = 0 \<and>
   preUserTrackingAction example_config (example_primary ''primary'')
     (beginOfEventAction example_config (projr (example_session example_service))) =
     Some (Inr (example_second_admitted)) \<and>
   fTrackIDOffset example_second_admitted = 0 \<and>
   TrackId (heap example_second_admitted
     (next_addr (beginOfEventAction example_config
                   (projr (example_session example_service))))) = 1"
proof -
  let ?b = "beginOfEventAction example_config (projr (example_session example_service))"
  have e: "entries (fParticleList (example_tracked example_service)) = [(1, Some 0)]"
    "fdroppedParticleList (example_tracked example_service) = Some empty_ParticleList"
    by code_simp+
  have y: "fTrackIDOffset (snd (YieldList (example_tracked example_service))) = 2"
    using offset_is_reset[of example_config "example_tracked example_service"] e
    by (simp add: track_ids_def empty_ParticleList_def int_wrap_def)
  have "\<not> isl (example_session example_service)"
    by code_simp
  then have s: "endOfEventAction example_config (example_tracked example_service) =
     Inr (projr (example_session example_service))"
    by (simp add: example_session_def)
  have z: "fTrackIDOffset (projr (example_session example_service)) = 0"
    using offset_is_reset[of example_config "example_tracked example_service"] s by simp
  have b: "fTrackIDOffset ?b = 0"
    using offset_is_reset[of example_config "projr (example_session example_service)"]
    by simp
  have "returns (preUserTrackingAction example_config (example_primary ''primary'') ?b)"
    by code_simp
  then have p: "preUserTrackingAction example_config (example_primary ''primary'') ?b =
      Some (Inr example_second_admitted)"
    unfolding example_second_admitted_def by (rule returnsD)
  have h: "hasParticle (fCurrentParticle example_second_admitted)"
    by code_simp
  have i: "GetTrackID (example_primary ''primary'') = 1"
    by (simp add: example_primary_def)
  show ?thesis
    using offset_is_reset[of example_config ?b "example_primary ''primary''"] y s z b p h i
    by (simp add: members_after_def)
qed

text \<open>
  The input on which the code leaves claim C1: two sessions, each with the one example
  primary of local track ID 1. Session 1 retains the particle with ID 1 and \<^verbatim>\<open>YieldList\<close>
  sets the offset to 2, but the session ends with offset 0, and the particle of session
  2 has ID 1 again, where the claim has an ID of 2 or more.
\<close>

theorem offset_is_reset_between_sessions:
  "\<not> isl (example_session example_service) \<and>
   map TrackId (partCol (out (projr (example_session example_service)))) = [1] \<and>
   fTrackIDOffset (snd (YieldList (example_tracked example_service))) = 2 \<and>
   fTrackIDOffset (projr (example_session example_service)) = 0 \<and>
   fTrackIDOffset (beginOfEventAction example_config
                     (projr (example_session example_service))) = 0 \<and>
   \<not> isl (example_session (projr (example_session example_service))) \<and>
   map TrackId (partCol (out (projr (example_session
                                      (projr (example_session example_service)))))) = [1]"
proof -
  have "\<not> isl (example_session example_service)"
    by code_simp
  moreover have "map TrackId (partCol (out (projr (example_session example_service)))) = [1]"
    by code_simp
  moreover have "fTrackIDOffset (snd (YieldList (example_tracked example_service))) = 2"
    by code_simp
  moreover have "fTrackIDOffset (projr (example_session example_service)) = 0"
    by code_simp
  moreover have "fTrackIDOffset (beginOfEventAction example_config
                     (projr (example_session example_service))) = 0"
    by code_simp
  moreover have "\<not> isl (example_session (projr (example_session example_service)))"
    by code_simp
  moreover have "map TrackId (partCol (out (projr (example_session
                                      (projr (example_session example_service)))))) = [1]"
    by code_simp
  ultimately show ?thesis by simp
qed

subsection \<open>The samples of a retained trajectory\<close>












lemma postUserTrackingAction_None:
  "particle (fCurrentParticle s) = None \<Longrightarrow>
   postUserTrackingAction SparsifyTrajectory cfg aTrack s = s"
  by (simp add: postUserTrackingAction_def)





































end
